theory Spec2Isabelle
  imports Complex_Main
begin

section \<open>Numbers\<close>

text \<open>
  JavaScript numbers are modelled as exact rationals: the rounding of IEEE doubles is
  left out. A division whose divisor is zero gives Infinity or NaN in JavaScript, which
  the rationals do not have; every such division is guarded, and a run that would leave
  the finite numbers ends in the outcome \<open>NonFinite\<close>. \<open>TypeError\<close> is the exception
  JavaScript raises when a property of \<open>null\<close> or \<open>undefined\<close> is read.
\<close>

datatype error = TypeError | NonFinite

definition js_div :: "rat \<Rightarrow> rat \<Rightarrow> error + rat" where
  "js_div a b = (if b = 0 then Inl NonFinite else Inr (a / b))"

definition js_round :: "rat \<Rightarrow> int" where
  \<comment> \<open>\<open>Math.round\<close>: the nearest integer, a tie going up.\<close>
  "js_round x = \<lfloor>x + 1 / 2\<rfloor>"

definition js_trunc :: "rat \<Rightarrow> int" where
  \<comment> \<open>\<open>~~x\<close>: truncation toward zero (within the 32-bit range).\<close>
  "js_trunc x = (if 0 \<le> x then \<lfloor>x\<rfloor> else \<lceil>x\<rceil>)"

section \<open>Canvas elements and their 2D contexts\<close>

text \<open>
  A colour argument is a string, a list of colour stops (an array, which has an
  identity) or an existing gradient object.
\<close>

datatype color = ColorStr string | ColorArr nat "string list" | ColorGrad nat

datatype fill_style =
    StyleStr string
  | StyleGrad nat
  | LinearGradient rat rat rat rat "(rat \<times> string) list"

text \<open>
  The calls made on a 2D rendering context. A canvas element and its context are one
  record; \<open>ops\<close> is the trace of the calls on the context, oldest first. An image is
  identified by its \<open>src\<close>.
\<close>

datatype ctx_op =
    Save
  | Restore
  | SetTransform rat rat rat rat rat rat
  | ClearRect rat rat rat rat
  | FillRect rat rat rat rat
  | SetFillStyle fill_style
  | BeginPath
  | MoveTo rat rat
  | LineTo rat rat
  | QuadraticCurveTo rat rat rat rat
  | ClosePath
  | Fill
  | DrawImage5 string rat rat rat rat
  | DrawImage9 string rat rat rat rat rat rat rat rat

record canvas =
  cv_width :: rat
  cv_height :: rat
  style_left :: "rat option"
  style_width :: "rat option"
  backimg :: "string option"
  ops :: "ctx_op list"

definition emit :: "ctx_op list \<Rightarrow> canvas \<Rightarrow> canvas" where
  "emit os c = c\<lparr>ops := ops c @ os\<rparr>"

section \<open>CanvasEntry\<close>

text \<open>The arguments of a deferred \<open>drawLines\<close> call and its delay in milliseconds.\<close>

record pending =
  p_peaks :: "rat list"
  p_absmax :: "rat option"
  p_halfH :: rat
  p_offsetY :: rat
  p_start :: "rat option"
  p_end :: "rat option"
  p_delay :: rat

record entry =
  wave :: "canvas option"
  progress :: "canvas option"
  entry_start :: rat
  entry_end :: rat
  e_hasProgressCanvas :: bool
  e_halfPixel :: rat
  drawTimeout :: "pending option"
  drawn :: bool

definition drawRoundedRect ::
  "canvas \<Rightarrow> rat \<Rightarrow> rat \<Rightarrow> rat \<Rightarrow> rat \<Rightarrow> rat \<Rightarrow> canvas" where
  "drawRoundedRect ctx x y width height radius =
     (if height = 0 then ctx
      else
        let (height, y) = (if height < 0 then (height * (- 1), y - height * (- 1))
                           else (height, y))
        in emit
            [BeginPath,
             MoveTo (x + radius) y,
             LineTo (x + width - radius) y,
             QuadraticCurveTo (x + width) y (x + width) (y + radius),
             LineTo (x + width) (y + height - radius),
             QuadraticCurveTo (x + width) (y + height) (x + width - radius) (y + height),
             LineTo (x + radius) (y + height),
             QuadraticCurveTo x (y + height) x (y + height - radius),
             LineTo x (y + radius),
             QuadraticCurveTo x y (x + radius) y,
             ClosePath,
             Fill] ctx)"

definition fillRectToContext ::
  "canvas option \<Rightarrow> rat \<Rightarrow> rat \<Rightarrow> rat \<Rightarrow> rat \<Rightarrow> rat \<Rightarrow> canvas option" where
  "fillRectToContext ctx x y width height radius =
     (case ctx of
        None \<Rightarrow> None
      | Some c \<Rightarrow>
          if radius \<noteq> 0 then Some (drawRoundedRect c x y width height radius)
          else Some (emit [FillRect x y width height] c))"

definition fillRects :: "rat \<Rightarrow> rat \<Rightarrow> rat \<Rightarrow> rat \<Rightarrow> rat \<Rightarrow> entry \<Rightarrow> entry" where
  "fillRects x y width height radius e =
     (let e = e\<lparr>wave := fillRectToContext (wave e) x y width height radius\<rparr>
      in if e_hasProgressCanvas e
         then e\<lparr>progress := fillRectToContext (progress e) x y width height radius\<rparr>
         else e)"

definition bind_err :: "error + 'a \<Rightarrow> ('a \<Rightarrow> error + 'b) \<Rightarrow> error + 'b" where
  "bind_err m f = (case m of Inl e \<Rightarrow> Inl e | Inr x \<Rightarrow> f x)"

definition on_wave :: "(canvas \<Rightarrow> canvas) \<Rightarrow> entry \<Rightarrow> error + entry" where
  \<comment> \<open>A statement that reads \<open>this.wave\<close> or \<open>this.waveCtx\<close>: a TypeError when it is null.\<close>
  "on_wave f e = (case wave e of None \<Rightarrow> Inl TypeError
                  | Some c \<Rightarrow> Inr (e\<lparr>wave := Some (f c)\<rparr>))"

definition on_progress :: "(canvas \<Rightarrow> canvas) \<Rightarrow> entry \<Rightarrow> error + entry" where
  "on_progress f e = (case progress e of None \<Rightarrow> Inl TypeError
                      | Some c \<Rightarrow> Inr (e\<lparr>progress := Some (f c)\<rparr>))"

definition setBackimage :: "string \<Rightarrow> string option \<Rightarrow> entry \<Rightarrow> error + entry" where
  "setBackimage backImage progBackImage e =
     bind_err (on_wave (\<lambda>c. c\<lparr>backimg := Some backImage\<rparr>) e) (\<lambda>e.
       case progBackImage of
         None \<Rightarrow> Inr e
       | Some p \<Rightarrow> on_progress (\<lambda>c. c\<lparr>backimg := Some p\<rparr>) e)"

definition clear_ops :: "canvas \<Rightarrow> canvas" where
  "clear_ops c =
     emit [Save, SetTransform 1 0 0 1 0 0, ClearRect 0 0 (cv_width c) (cv_height c), Restore] c"

definition clearWave :: "entry \<Rightarrow> error + entry" where
  "clearWave e =
     bind_err (on_wave clear_ops e) (\<lambda>e.
     bind_err (if e_hasProgressCanvas e
               then bind_err (on_progress clear_ops e) (setBackimage [] (Some []))
               else setBackimage [] None e) (\<lambda>e.
     Inr (e\<lparr>drawn := False\<rparr>)))"

definition updateDimensions ::
  "(canvas \<Rightarrow> rat) \<Rightarrow> int \<Rightarrow> int \<Rightarrow> rat \<Rightarrow> rat \<Rightarrow> entry \<Rightarrow> error + entry" where
  \<comment> \<open>\<open>offsetLeft\<close> is the host's layout: the offset it reports for a canvas element.\<close>
  "updateDimensions offsetLeft elementWidth totalWidth width height e =
     (case wave e of
        None \<Rightarrow> Inl TypeError
      | Some w \<Rightarrow>
          if totalWidth = 0 then Inl NonFinite
          else
            let s = offsetLeft w / of_int totalWidth;
                e = e\<lparr>entry_start := s,
                       entry_end := s + of_int elementWidth / of_int totalWidth\<rparr>
            in bind_err
                 (on_wave (\<lambda>c. c\<lparr>cv_width := width, cv_height := height,
                                    style_width := Some (of_int elementWidth)\<rparr>) e) (\<lambda>e.
                 if e_hasProgressCanvas e
                 then on_progress (\<lambda>c. c\<lparr>cv_width := width, cv_height := height,
                                            style_width := Some (of_int elementWidth)\<rparr>) e
                 else Inr e))"

definition getFillStyle :: "canvas \<Rightarrow> color \<Rightarrow> fill_style" where
  "getFillStyle ctx color =
     (case color of
        ColorStr s \<Rightarrow> StyleStr s
      | ColorGrad g \<Rightarrow> StyleGrad g
      | ColorArr a stops \<Rightarrow>
          LinearGradient 0 0 0 (cv_height ctx)
            (map (\<lambda>(index, v). (of_nat index / of_nat (length stops), v))
                 (enumerate 0 stops)))"

definition setFillStyles :: "color \<Rightarrow> color \<Rightarrow> entry \<Rightarrow> error + entry" where
  "setFillStyles waveColor progressColor e =
     bind_err (on_wave (\<lambda>c. emit [SetFillStyle (getFillStyle c waveColor)] c) e) (\<lambda>e.
       if e_hasProgressCanvas e
       then on_progress (\<lambda>c. emit [SetFillStyle (getFillStyle c progressColor)] c) e
       else Inr e)"

definition applyCanvasTransforms :: "bool \<Rightarrow> entry \<Rightarrow> error + entry" where
  "applyCanvasTransforms vertical e =
     (if vertical
      then bind_err (on_wave (emit [SetTransform 0 1 1 0 0 0]) e) (\<lambda>e.
             if e_hasProgressCanvas e
             then on_progress (emit [SetTransform 0 1 1 0 0 0]) e
             else Inr e)
      else Inr e)"

definition setLeft :: "rat \<Rightarrow> entry \<Rightarrow> error + entry" where
  "setLeft position e =
     bind_err (on_wave (\<lambda>c. c\<lparr>style_left := Some position\<rparr>) e) (\<lambda>e.
       if e_hasProgressCanvas e
       then on_progress (\<lambda>c. c\<lparr>style_left := Some position\<rparr>) e
       else Inr e)"

definition destroy :: "entry \<Rightarrow> entry" where
  "destroy e = e\<lparr>wave := None, progress := None\<rparr>"

definition peak_or0 :: "rat list \<Rightarrow> int \<Rightarrow> rat" where
  \<comment> \<open>\<open>peaks[k] || 0\<close>: a read outside the array gives \<open>undefined\<close>, replaced by 0.\<close>
  "peak_or0 peaks k = (if 0 \<le> k \<and> k < int (length peaks) then peaks ! nat k else 0)"

definition line_first :: "entry \<Rightarrow> rat list \<Rightarrow> int" where
  "line_first e peaks = js_round (of_nat (length peaks) / 2 * entry_start e)"

definition line_last :: "entry \<Rightarrow> rat list \<Rightarrow> int" where
  "line_last e peaks = js_round (of_nat (length peaks) / 2 * entry_end e) + 1"

definition line_path ::
  "rat list \<Rightarrow> rat \<Rightarrow> rat \<Rightarrow> rat \<Rightarrow> rat \<Rightarrow> int \<Rightarrow> int \<Rightarrow> int \<Rightarrow> ctx_op list" where
  "line_path peaks scale halfPixel halfOffset absmaxHalf first canvasStart canvasEnd =
     [BeginPath,
      MoveTo (of_int (canvasStart - first) * scale) halfOffset,
      LineTo (of_int (canvasStart - first) * scale)
             (halfOffset - of_int (js_round (peak_or0 peaks (2 * canvasStart) / absmaxHalf)))]
     @ map (\<lambda>i. LineTo (of_int (i - first) * scale + halfPixel)
                       (halfOffset - of_int (js_round (peak_or0 peaks (2 * i) / absmaxHalf))))
           [canvasStart..canvasEnd - 1]
     @ map (\<lambda>j. LineTo (of_int (j - first) * scale + halfPixel)
                       (halfOffset - of_int (js_round (peak_or0 peaks (2 * j + 1) / absmaxHalf))))
           (rev [canvasStart..canvasEnd - 1])
     @ [LineTo (of_int (canvasStart - first) * scale)
               (halfOffset - of_int (js_round (peak_or0 peaks (2 * canvasStart + 1) / absmaxHalf))),
        ClosePath,
        Fill]"

definition drawLineToContext ::
  "entry \<Rightarrow> canvas option \<Rightarrow> rat list \<Rightarrow> rat option \<Rightarrow> rat \<Rightarrow> rat \<Rightarrow> rat option \<Rightarrow> rat option
     \<Rightarrow> error + canvas option" where
  \<comment> \<open>The arguments \<open>start\<close> and \<open>end\<close> are not read by the body.\<close>
  "drawLineToContext e ctx peaks absmax halfH offsetY start end =
     (case ctx of
        None \<Rightarrow> Inr None
      | Some c \<Rightarrow>
          (let first = line_first e peaks;
               last = line_last e peaks;
               canvasStart = first;
               canvasEnd = last
           in (case wave e of
                 None \<Rightarrow> Inl TypeError
               | Some w \<Rightarrow>
                   if canvasEnd - canvasStart - 1 = 0 then Inl NonFinite
                   else
                     (let scale = cv_width w / of_int (canvasEnd - canvasStart - 1);
                          halfOffset = halfH + offsetY
                      in (case absmax of
                            None \<Rightarrow> Inl NonFinite
                          | Some absmax \<Rightarrow>
                              if halfH = 0 \<or> absmax / halfH = 0 then Inl NonFinite
                              else Inr (Some (emit
                                     (line_path peaks scale (e_halfPixel e) halfOffset
                                        (absmax / halfH) first canvasStart canvasEnd) c)))))))"

definition drawLines ::
  "rat list \<Rightarrow> rat option \<Rightarrow> rat \<Rightarrow> rat \<Rightarrow> rat option \<Rightarrow> rat option \<Rightarrow> entry \<Rightarrow> error + entry" where
  "drawLines peaks absmax halfH offsetY start end e =
     bind_err (drawLineToContext e (wave e) peaks absmax halfH offsetY start end) (\<lambda>w.
     let e = e\<lparr>wave := w\<rparr> in
     bind_err (if e_hasProgressCanvas e
               then bind_err (drawLineToContext e (progress e) peaks absmax halfH offsetY start end)
                      (\<lambda>p. Inr (e\<lparr>progress := p\<rparr>))
               else Inr e) (\<lambda>e.
     Inr (e\<lparr>drawn := True\<rparr>)))"

text \<open>
  Encoding a canvas is the host's work: \<open>toDataURL\<close> and \<open>toBlob\<close> are parameters. A
  promise is modelled by its settlement; an exception inside the executor of
  \<open>new Promise\<close> rejects the promise.
\<close>

datatype 'a promise = Resolves 'a | Rejects error

datatype entry_image = EntryDataURL string | EntryBlob "string promise" | EntryUndefined

type_synonym encoder = "canvas \<Rightarrow> string \<Rightarrow> rat \<Rightarrow> string"

definition image_of ::
  "encoder \<Rightarrow> encoder \<Rightarrow> canvas option \<Rightarrow> string \<Rightarrow> rat \<Rightarrow> string \<Rightarrow> error + entry_image" where
  "image_of toDataURL toBlob cv format quality type =
     (if type = ''blob''
      then Inr (EntryBlob (case cv of None \<Rightarrow> Rejects TypeError
                           | Some c \<Rightarrow> Resolves (toBlob c format quality)))
      else if type = ''dataURL''
      then (case cv of None \<Rightarrow> Inl TypeError
            | Some c \<Rightarrow> Inr (EntryDataURL (toDataURL c format quality)))
      else Inr EntryUndefined)"

definition entry_getImage ::
  "encoder \<Rightarrow> encoder \<Rightarrow> string \<Rightarrow> rat \<Rightarrow> string \<Rightarrow> entry \<Rightarrow> error + entry_image" where
  "entry_getImage toDataURL toBlob format quality type e =
     image_of toDataURL toBlob (wave e) format quality type"

definition getProgressImage ::
  "encoder \<Rightarrow> encoder \<Rightarrow> string \<Rightarrow> rat \<Rightarrow> string \<Rightarrow> entry \<Rightarrow> error + entry_image" where
  "getProgressImage toDataURL toBlob format quality type e =
     image_of toDataURL toBlob (progress e) format quality type"

text \<open>
  The backup handed to \<open>stretchBackimage\<close> is \<open>null\<close>, one image or an array of images.
  The width and height of an image are the host's: \<open>dims\<close> gives them for a \<open>src\<close>.
\<close>

datatype backup = BackupNull | BackupImage string | BackupArray "string list"

fun draw_backups ::
  "(string \<Rightarrow> rat \<times> rat) \<Rightarrow> rat \<Rightarrow> rat \<Rightarrow> rat \<Rightarrow> string list \<Rightarrow> ctx_op list" where
  "draw_backups dims backupScale shift backupOffset [] = []"
| "draw_backups dims backupScale shift backupOffset (img # imgs) =
     (let dWidth = of_int \<lceil>fst (dims img) * backupScale\<rceil>;
          dx = of_int \<lfloor>backupOffset + shift\<rfloor>
      in DrawImage9 img 0 0 (fst (dims img)) (snd (dims img)) dx 0 dWidth (snd (dims img))
         # draw_backups dims backupScale shift (backupOffset + dWidth) imgs)"

definition stretch_wave ::
  "(canvas \<Rightarrow> rat) \<Rightarrow> (string \<Rightarrow> rat \<times> rat) \<Rightarrow> rat \<Rightarrow> rat \<Rightarrow> rat \<Rightarrow> rat \<Rightarrow> backup
     \<Rightarrow> entry \<Rightarrow> canvas \<Rightarrow> error + ctx_op list" where
  \<comment> \<open>The images drawn on the wave canvas \<open>w\<close>, after its \<open>clearRect\<close>.\<close>
  "stretch_wave offsetLeft dims totalWidth pixelRatio viewOffset imageWidth backupImg e w =
     (case backimg w of
        None \<Rightarrow> Inl TypeError
      | Some src \<Rightarrow>
          if src = [] then
            (case backupImg of
               BackupArray imgs \<Rightarrow>
                 if imgs = [] then Inr []
                 else if (\<Sum>i\<leftarrow>imgs. fst (dims i)) = 0 then Inl NonFinite
                 else Inr (draw_backups dims
                             (totalWidth * pixelRatio / (\<Sum>i\<leftarrow>imgs. fst (dims i)))
                             (- (offsetLeft w * pixelRatio) + viewOffset) 0 imgs)
             | BackupImage b \<Rightarrow>
                 Inr [DrawImage9 b (fst (dims src) * entry_start e) 0
                        (fst (dims src) * entry_end e - fst (dims src) * entry_start e)
                        (snd (dims src)) viewOffset 0 imageWidth (snd (dims src))]
             | BackupNull \<Rightarrow> Inl TypeError)
          else Inr [DrawImage5 src viewOffset 0 imageWidth (snd (dims src))])"

definition stretchBackimage ::
  "(canvas \<Rightarrow> rat) \<Rightarrow> (string \<Rightarrow> rat \<times> rat) \<Rightarrow> rat \<Rightarrow> rat \<Rightarrow> rat \<Rightarrow> rat \<times> rat \<Rightarrow> backup
     \<Rightarrow> entry \<Rightarrow> error + entry \<times> rat" where
  "stretchBackimage offsetLeft dims start totalWidth pixelRatio viewBounds backupImg e =
     (let end = entry_end e * totalWidth in
      if start > snd viewBounds \<or> end < fst viewBounds then
        bind_err (on_wave (\<lambda>c. emit [ClearRect 0 0 (cv_width c) (cv_height c)] c) e) (\<lambda>e.
        bind_err (on_progress (\<lambda>c. emit [ClearRect 0 0 (cv_width c) (cv_height c)] c) e) (\<lambda>e.
        Inr (e, end)))
      else
        let viewStart = max start (fst viewBounds);
            viewEnd = min end (snd viewBounds);
            viewOffset = (start - viewStart) * pixelRatio;
            newWidth = viewEnd - viewStart;
            waveWidth = of_int (js_round newWidth);
            canvasWidth = of_int (js_round (newWidth * pixelRatio));
            imageWidth = of_int (js_round ((end - start) * pixelRatio));
            resize = (\<lambda>c. c\<lparr>cv_width := canvasWidth, style_width := Some waveWidth,
                               style_left := Some viewStart\<rparr>)
        in
        bind_err (on_wave resize e) (\<lambda>e.
        bind_err (if e_hasProgressCanvas e then on_progress resize e else Inr e) (\<lambda>e.
        bind_err (on_wave (\<lambda>c. emit [ClearRect 0 0 canvasWidth (cv_height c)] c) e) (\<lambda>e.
        bind_err (case wave e of None \<Rightarrow> Inl TypeError
                  | Some w \<Rightarrow> stretch_wave offsetLeft dims totalWidth pixelRatio viewOffset
                                imageWidth backupImg e w) (\<lambda>draws.
        bind_err (on_wave (emit draws) e) (\<lambda>e.
        case progress e of
          None \<Rightarrow> Inl TypeError
        | Some p \<Rightarrow>
            (case backimg p of
               None \<Rightarrow> Inr (e, end)
             | Some progImage \<Rightarrow>
                 Inr (e\<lparr>progress := Some (emit
                        [ClearRect 0 0 canvasWidth (cv_height p),
                         DrawImage5 progImage viewOffset 0 imageWidth (snd (dims progImage))] p)\<rparr>,
                      end))))))))"

section \<open>MultiCanvas\<close>

text \<open>
  The options read by the renderer (\<open>height_p\<close>, \<open>normalize_p\<close> and \<open>vertical_p\<close> are
  the options \<open>height\<close>, \<open>normalize\<close> and \<open>vertical\<close>). \<open>barGap\<close> may be \<open>null\<close>;
  \<open>channelColors\<close> maps a channel index to its optional wave and progress colours.
\<close>

record params =
  waveColor :: color
  progressColor :: color
  pixelRatio :: rat
  maxCanvasWidth :: rat
  barWidth :: rat
  barGap :: "rat option"
  barMinHeight :: rat
  barRadius :: rat
  barHeight :: rat
  height_p :: rat
  normalize_p :: bool
  vertical_p :: bool
  splitChannels :: bool
  overlay :: bool
  relativeNormalization :: bool
  filterChannels :: "int list"
  channelColors :: "int \<Rightarrow> (color option \<times> color option) option"

record progress_wave =
  pw_width :: rat
  pw_display :: string

record multicanvas =
  params :: params
  mc_width :: rat
  mc_height :: rat
  mc_maxCanvasWidth :: rat
  maxCanvasElementWidth :: int
  hasProgressCanvas :: bool
  halfPixel :: rat
  canvases :: "entry list"
  progressWave :: "progress_wave option"
  overlap :: int
  mc_barRadius :: rat
  mc_vertical :: bool
  backupImage :: "string list option"

fun join_comma :: "string list \<Rightarrow> string" where
  "join_comma [] = []"
| "join_comma [x] = x"
| "join_comma (x # y # ys) = x @ '','' @ join_comma (y # ys)"

fun loose_eq :: "color \<Rightarrow> color \<Rightarrow> bool" where
  \<comment> \<open>JavaScript's \<open>==\<close>: strings by content, objects by identity, an object against a
      string through its \<open>toString\<close>.\<close>
  "loose_eq (ColorStr a) (ColorStr b) = (a = b)"
| "loose_eq (ColorArr i xs) (ColorArr j ys) = (i = j)"
| "loose_eq (ColorGrad i) (ColorGrad j) = (i = j)"
| "loose_eq (ColorStr a) (ColorArr j ys) = (a = join_comma ys)"
| "loose_eq (ColorArr i xs) (ColorStr b) = (join_comma xs = b)"
| "loose_eq (ColorStr a) (ColorGrad j) = (a = ''[object CanvasGradient]'')"
| "loose_eq (ColorGrad i) (ColorStr b) = (''[object CanvasGradient]'' = b)"
| "loose_eq (ColorArr i xs) (ColorGrad j) = False"
| "loose_eq (ColorGrad i) (ColorArr j ys) = False"

definition MultiCanvas_new :: "params \<Rightarrow> rat \<Rightarrow> rat \<Rightarrow> error + multicanvas" where
  \<comment> \<open>The constructor; \<open>width0\<close> and \<open>height0\<close> are the size the base class starts with.\<close>
  "MultiCanvas_new ps width0 height0 =
     (if pixelRatio ps = 0 then Inl NonFinite
      else Inr \<lparr>params = ps,
                 mc_width = width0,
                 mc_height = height0,
                 mc_maxCanvasWidth = maxCanvasWidth ps,
                 maxCanvasElementWidth = js_round (maxCanvasWidth ps / pixelRatio ps),
                 hasProgressCanvas = (\<not> loose_eq (waveColor ps) (progressColor ps)),
                 halfPixel = (1 / 2) / pixelRatio ps,
                 canvases = [],
                 progressWave = None,
                 overlap = 2 * \<lceil>pixelRatio ps / 2\<rceil>,
                 mc_barRadius = barRadius ps,
                 mc_vertical = vertical_p ps,
                 backupImage = None\<rparr>)"

definition new_canvas :: "rat \<Rightarrow> canvas" where
  \<comment> \<open>A fresh canvas element (300 by 150 by default) placed at \<open>left\<close>.\<close>
  "new_canvas left = \<lparr>cv_width = 300, cv_height = 150, style_left = Some left,
                       style_width = None, backimg = None, ops = []\<rparr>"

definition addCanvas :: "multicanvas \<Rightarrow> error + multicanvas" where
  "addCanvas mc =
     (let entry = \<lparr>wave = None, progress = None, entry_start = 0, entry_end = 1,
                    e_hasProgressCanvas = hasProgressCanvas mc, e_halfPixel = halfPixel mc,
                    drawTimeout = None, drawn = False\<rparr>;
          leftOffset = of_int (maxCanvasElementWidth mc * int (length (canvases mc)));
          entry = entry\<lparr>wave := Some (new_canvas leftOffset)\<rparr>
      in bind_err
           (if hasProgressCanvas mc
            then (case progressWave mc of
                    None \<Rightarrow> Inl TypeError
                  | Some pw \<Rightarrow> Inr (entry\<lparr>progress := Some (new_canvas leftOffset)\<rparr>))
            else Inr entry) (\<lambda>entry.
         Inr (mc\<lparr>canvases := canvases mc @ [entry]\<rparr>)))"

definition createElements :: "multicanvas \<Rightarrow> error + multicanvas" where
  "createElements mc =
     addCanvas (mc\<lparr>progressWave := Some \<lparr>pw_width = 0, pw_display = ''none''\<rparr>\<rparr>)"

definition removeCanvas :: "multicanvas \<Rightarrow> error + multicanvas" where
  "removeCanvas mc =
     (if canvases mc = [] then Inl TypeError
      else
        let lastEntry = last (canvases mc)
        in if wave lastEntry = None then Inl TypeError
           else if hasProgressCanvas mc \<and> progress lastEntry = None then Inl TypeError
           else Inr (mc\<lparr>canvases := butlast (canvases mc)\<rparr>))"

definition mc_updateDimensions ::
  "(canvas \<Rightarrow> rat) \<Rightarrow> multicanvas \<Rightarrow> rat \<Rightarrow> rat \<Rightarrow> entry \<Rightarrow> error + entry" where
  \<comment> \<open>The entry's part of \<open>MultiCanvas.updateDimensions\<close>; the display of the progress
      wrapper is set by the caller below.\<close>
  "mc_updateDimensions offsetLeft mc width height entry =
     (let elementWidth = js_round (width / pixelRatio (params mc));
          totalWidth = js_round (mc_width mc / pixelRatio (params mc))
      in bind_err (updateDimensions offsetLeft elementWidth totalWidth width height entry) (\<lambda>entry.
         case progressWave mc of None \<Rightarrow> Inl TypeError | Some pw \<Rightarrow> Inr entry))"

function add_canvases :: "int \<Rightarrow> multicanvas \<Rightarrow> error + multicanvas" where
  "add_canvases requiredCanvases mc =
     (if int (length (canvases mc)) < requiredCanvases
      then (case addCanvas mc of Inl e \<Rightarrow> Inl e
            | Inr mc' \<Rightarrow> add_canvases requiredCanvases mc')
      else Inr mc)"
  by pat_completeness auto
termination
  by (relation "measure (\<lambda>(r, mc). nat (r - int (length (canvases mc))))")
     (auto simp: addCanvas_def bind_err_def Let_def split: if_splits option.splits)

function remove_canvases :: "int \<Rightarrow> multicanvas \<Rightarrow> error + multicanvas" where
  "remove_canvases requiredCanvases mc =
     (if int (length (canvases mc)) > requiredCanvases
      then (case removeCanvas mc of Inl e \<Rightarrow> Inl e
            | Inr mc' \<Rightarrow> remove_canvases requiredCanvases mc')
      else Inr mc)"
  by pat_completeness auto
termination
  by (relation "measure (\<lambda>(r, mc). length (canvases mc))")
     (auto simp: removeCanvas_def Let_def split: if_splits)

fun update_entries ::
  "(canvas \<Rightarrow> rat) \<Rightarrow> multicanvas \<Rightarrow> nat \<Rightarrow> rat \<Rightarrow> rat \<Rightarrow> entry list \<Rightarrow> error + entry list" where
  "update_entries offsetLeft mc i canvasWidth leftOffset [] = Inr []"
| "update_entries offsetLeft mc i canvasWidth leftOffset (entry # rest) =
     (let lastCanvas = int (length (canvases mc)) - 1;
          canvasWidth = (if int i = lastCanvas
                         then mc_width mc - mc_maxCanvasWidth mc * of_int lastCanvas
                         else canvasWidth)
      in bind_err (setLeft leftOffset entry) (\<lambda>entry.
         bind_err (mc_updateDimensions offsetLeft mc canvasWidth (mc_height mc) entry) (\<lambda>entry.
         bind_err (clearWave entry) (\<lambda>entry.
         bind_err (update_entries offsetLeft mc (i + 1) canvasWidth
                     (leftOffset + canvasWidth / pixelRatio (params mc)) rest) (\<lambda>rest.
         Inr (entry # rest))))))"

definition requiredCanvases :: "multicanvas \<Rightarrow> int" where
  "requiredCanvases mc =
     \<lceil>of_int (js_round (mc_width mc / pixelRatio (params mc)))
        / (of_int (maxCanvasElementWidth mc + overlap mc) :: rat)\<rceil>"

definition updateSize :: "(canvas \<Rightarrow> rat) \<Rightarrow> multicanvas \<Rightarrow> error + multicanvas" where
  "updateSize offsetLeft mc =
     (if pixelRatio (params mc) = 0 \<or> maxCanvasElementWidth mc + overlap mc = 0
      then Inl NonFinite
      else
        bind_err (add_canvases (requiredCanvases mc) mc) (\<lambda>mc.
        bind_err (remove_canvases (requiredCanvases mc) mc) (\<lambda>mc.
        bind_err (update_entries offsetLeft mc 0
                    (mc_maxCanvasWidth mc + of_int (overlap mc)) 0 (canvases mc)) (\<lambda>es.
        Inr (mc\<lparr>canvases := es,
                 progressWave := (if es = [] then progressWave mc
                                  else map_option (\<lambda>pw. pw\<lparr>pw_display := ''block''\<rparr>)
                                         (progressWave mc))\<rparr>)))))"

definition resize :: "(canvas \<Rightarrow> rat) \<Rightarrow> rat \<Rightarrow> rat \<Rightarrow> multicanvas \<Rightarrow> error + multicanvas" where
  \<comment> \<open>Modelled from the spec: the base class's setters of width and height are not part
      of the sources; \<open>resize\<close> stores the new size and runs \<open>updateSize\<close>.\<close>
  "resize offsetLeft w h mc = updateSize offsetLeft (mc\<lparr>mc_width := w, mc_height := h\<rparr>)"

text \<open>
  One round of the \<open>forEach\<close> in \<open>updateSize\<close>, and the width its entry gets; the
  layout of an entry is what \<open>updateSize\<close> assigns: the left offset, the canvas size and
  the element width of each canvas.
\<close>

definition entry_step ::
  "(canvas \<Rightarrow> rat) \<Rightarrow> multicanvas \<Rightarrow> rat \<Rightarrow> rat \<Rightarrow> entry \<Rightarrow> error + entry" where
  "entry_step offsetLeft mc canvasWidth leftOffset entry =
     bind_err (setLeft leftOffset entry) (\<lambda>entry.
     bind_err (mc_updateDimensions offsetLeft mc canvasWidth (mc_height mc) entry) clearWave)"

definition width_at :: "multicanvas \<Rightarrow> nat \<Rightarrow> rat \<Rightarrow> rat" where
  "width_at mc i canvasWidth =
     (if int i = int (length (canvases mc)) - 1
      then mc_width mc - mc_maxCanvasWidth mc * of_int (int (length (canvases mc)) - 1)
      else canvasWidth)"

definition canvas_layout :: "canvas \<Rightarrow> rat option \<times> rat \<times> rat \<times> rat option" where
  "canvas_layout c = (style_left c, cv_width c, cv_height c, style_width c)"

definition entry_layout ::
  "entry \<Rightarrow> (rat option \<times> rat \<times> rat \<times> rat option) option
           \<times> (rat option \<times> rat \<times> rat \<times> rat option) option" where
  "entry_layout e = (map_option canvas_layout (wave e), map_option canvas_layout (progress e))"

text \<open>
  An entry of a set whose flag is \<open>flag\<close> is in order when it carries the same flag, has
  its wave canvas, and has a progress canvas exactly when the flag is set.
\<close>

definition entry_ok :: "bool \<Rightarrow> entry \<Rightarrow> bool" where
  "entry_ok flag e \<longleftrightarrow>
     e_hasProgressCanvas e = flag \<and> wave e \<noteq> None \<and> (progress e \<noteq> None) = flag"

definition entries_ok :: "multicanvas \<Rightarrow> bool" where
  "entries_ok mc \<longleftrightarrow> list_all (entry_ok (hasProgressCanvas mc)) (canvases mc)"

section \<open>Drawing on the surface set\<close>

fun each_entry :: "(entry \<Rightarrow> error + entry) \<Rightarrow> entry list \<Rightarrow> error + entry list" where
  \<comment> \<open>\<open>forEach\<close> over the entries, left to right, stopped by the first exception.\<close>
  "each_entry f [] = Inr []"
| "each_entry f (e # es) =
     bind_err (f e) (\<lambda>e'. bind_err (each_entry f es) (\<lambda>es'. Inr (e' # es')))"

definition mc_clearWave :: "multicanvas \<Rightarrow> error + multicanvas" where
  "mc_clearWave mc =
     bind_err (each_entry clearWave (canvases mc)) (\<lambda>es. Inr (mc\<lparr>canvases := es\<rparr>))"

definition mc_setFillStyles :: "multicanvas \<Rightarrow> int \<Rightarrow> entry \<Rightarrow> error + entry" where
  \<comment> \<open>The colours of the channel, each defaulting to the colour of the options.\<close>
  "mc_setFillStyles mc channelIndex entry =
     (let (wc, pc) = (case channelColors (params mc) channelIndex of
                        None \<Rightarrow> (None, None) | Some cols \<Rightarrow> cols)
      in setFillStyles (case wc of None \<Rightarrow> waveColor (params mc) | Some c \<Rightarrow> c)
                       (case pc of None \<Rightarrow> progressColor (params mc) | Some c \<Rightarrow> c) entry)"

definition fillRect_entry ::
  "multicanvas \<Rightarrow> rat \<Rightarrow> rat \<Rightarrow> rat \<Rightarrow> rat \<Rightarrow> rat \<Rightarrow> int \<Rightarrow> int \<Rightarrow> error + multicanvas" where
  \<comment> \<open>The body of the loop of \<open>fillRect\<close> for the canvas index \<open>i\<close>, below the number of
      canvases; a negative index reads \<open>undefined\<close>.\<close>
  "fillRect_entry mc x y width height radius channelIndex i =
     (if i < 0 then Inl TypeError
      else
        let entry = canvases mc ! nat i;
            leftOffset = of_int i * mc_maxCanvasWidth mc
        in (case wave entry of
              None \<Rightarrow> Inl TypeError
            | Some w \<Rightarrow>
                let x1 = max x (of_int i * mc_maxCanvasWidth mc);
                    y1 = y;
                    x2 = min (x + width) (of_int i * mc_maxCanvasWidth mc + cv_width w);
                    y2 = y + height
                in if x1 < x2
                   then bind_err (mc_setFillStyles mc channelIndex entry) (\<lambda>entry.
                        bind_err (applyCanvasTransforms (vertical_p (params mc)) entry) (\<lambda>entry.
                        Inr (mc\<lparr>canvases := (canvases mc)
                               [nat i := fillRects (x1 - leftOffset) y1 (x2 - x1) (y2 - y1)
                                           radius entry]\<rparr>)))
                   else Inr mc))"

function fillRect_loop ::
  "rat \<Rightarrow> rat \<Rightarrow> rat \<Rightarrow> rat \<Rightarrow> rat \<Rightarrow> int \<Rightarrow> int \<Rightarrow> int \<Rightarrow> multicanvas \<Rightarrow> error + multicanvas" where
  "fillRect_loop x y width height radius channelIndex endCanvas i mc =
     (if i < endCanvas
      then (case fillRect_entry mc x y width height radius channelIndex i of
              Inl e \<Rightarrow> Inl e
            | Inr mc' \<Rightarrow> fillRect_loop x y width height radius channelIndex endCanvas (i + 1) mc')
      else Inr mc)"
  by pat_completeness auto
termination
  by (relation "measure (\<lambda>(x, y, w, h, r, ch, endCanvas, i, mc). nat (endCanvas - i))") auto

definition fillRect ::
  "rat \<Rightarrow> rat \<Rightarrow> rat \<Rightarrow> rat \<Rightarrow> rat \<Rightarrow> int \<Rightarrow> multicanvas \<Rightarrow> error + multicanvas" where
  "fillRect x y width height radius channelIndex mc =
     (if mc_maxCanvasWidth mc = 0 then Inl NonFinite
      else
        let startCanvas = \<lfloor>x / mc_maxCanvasWidth mc\<rfloor>;
            endCanvas = min (\<lceil>(x + width) / mc_maxCanvasWidth mc\<rceil> + 1)
                            (int (length (canvases mc)))
        in fillRect_loop x y width height radius channelIndex endCanvas startCanvas mc)"

text \<open>
  \<open>drawLine\<close> asks the host for the rectangle of each wave canvas (\<open>bounds\<close>: left and
  right) and of the wrapper (left, right and width), clears the entry and replaces its
  pending draw; the timer is the slot \<open>drawTimeout\<close>, and \<open>run_pending\<close> is its callback.
\<close>

definition line_priority :: "rat \<times> rat \<Rightarrow> rat \<times> rat \<times> rat \<Rightarrow> error + rat" where
  "line_priority canvasRect wrapperRect =
     (let (cl, cr) = canvasRect; (wl, wr, ww) = wrapperRect
      in if \<lfloor>cl\<rfloor> > \<lceil>wr\<rceil>
         then (if ww = 0 then Inl NonFinite else Inr (of_int \<lceil>(cl - wr) / ww\<rceil>))
         else if \<lceil>cr\<rceil> < \<lfloor>wl\<rfloor>
         then (if ww = 0 then Inl NonFinite else Inr (of_int \<lceil>(wl - cr) / ww\<rceil>))
         else Inr 0)"

definition drawLine_entry ::
  "(canvas \<Rightarrow> rat \<times> rat) \<Rightarrow> rat \<times> rat \<times> rat \<Rightarrow> multicanvas \<Rightarrow> rat list \<Rightarrow> rat option \<Rightarrow> rat
     \<Rightarrow> rat \<Rightarrow> rat option \<Rightarrow> rat option \<Rightarrow> int \<Rightarrow> entry \<Rightarrow> error + entry" where
  "drawLine_entry bounds wrapperRect mc peaks absmax halfH offsetY start end channelIndex entry =
     bind_err (mc_setFillStyles mc channelIndex entry) (\<lambda>entry.
     bind_err (applyCanvasTransforms (vertical_p (params mc)) entry) (\<lambda>entry.
     bind_err (case wave entry of None \<Rightarrow> Inl TypeError
               | Some w \<Rightarrow> line_priority (bounds w) wrapperRect) (\<lambda>priority.
     bind_err (clearWave entry) (\<lambda>entry.
     Inr (entry\<lparr>drawTimeout := Some \<lparr>p_peaks = peaks, p_absmax = absmax, p_halfH = halfH,
                   p_offsetY = offsetY, p_start = start, p_end = end,
                   p_delay = 50 * priority\<rparr>\<rparr>)))))"

definition drawLine ::
  "(canvas \<Rightarrow> rat \<times> rat) \<Rightarrow> rat \<times> rat \<times> rat \<Rightarrow> rat list \<Rightarrow> rat option \<Rightarrow> rat \<Rightarrow> rat
     \<Rightarrow> rat option \<Rightarrow> rat option \<Rightarrow> int \<Rightarrow> multicanvas \<Rightarrow> error + multicanvas" where
  "drawLine bounds wrapperRect peaks absmax halfH offsetY start end channelIndex mc =
     bind_err (each_entry (drawLine_entry bounds wrapperRect mc peaks absmax halfH offsetY
                             start end channelIndex) (canvases mc)) (\<lambda>es.
     Inr (mc\<lparr>canvases := es\<rparr>))"

definition dataURL_of :: "error + entry_image \<Rightarrow> error + string option" where
  \<comment> \<open>The value handed on from \<open>getImage\<close>: a data URL, or \<open>undefined\<close>.\<close>
  "dataURL_of r =
     bind_err r (\<lambda>img. case img of EntryDataURL u \<Rightarrow> Inr (Some u) | _ \<Rightarrow> Inr None)"

definition run_pending :: "encoder \<Rightarrow> encoder \<Rightarrow> entry \<Rightarrow> error + entry" where
  "run_pending toDataURL toBlob entry =
     (case drawTimeout entry of
        None \<Rightarrow> Inr entry
      | Some p \<Rightarrow>
          bind_err (drawLines (p_peaks p) (p_absmax p) (p_halfH p) (p_offsetY p)
                      (p_start p) (p_end p) entry) (\<lambda>entry.
          bind_err (dataURL_of (entry_getImage toDataURL toBlob ''image/png'' 1 ''dataURL'' entry))
            (\<lambda>img.
          bind_err (dataURL_of (getProgressImage toDataURL toBlob ''image/png'' 1 ''dataURL'' entry))
            (\<lambda>progImg.
          bind_err (setBackimage (case img of None \<Rightarrow> ''undefined'' | Some u \<Rightarrow> u) progImg entry)
            (\<lambda>entry.
          Inr (entry\<lparr>drawTimeout := None\<rparr>))))))"

definition fire_timeout :: "encoder \<Rightarrow> encoder \<Rightarrow> nat \<Rightarrow> multicanvas \<Rightarrow> error + multicanvas" where
  \<comment> \<open>The timer of the entry at index \<open>i\<close> fires.\<close>
  "fire_timeout toDataURL toBlob i mc =
     (if i < length (canvases mc)
      then bind_err (run_pending toDataURL toBlob (canvases mc ! i)) (\<lambda>e.
             Inr (mc\<lparr>canvases := (canvases mc)[i := e]\<rparr>))
      else Inr mc)"

definition updateProgress :: "rat \<Rightarrow> multicanvas \<Rightarrow> error + multicanvas" where
  "updateProgress position mc =
     (case progressWave mc of
        None \<Rightarrow> Inl TypeError
      | Some pw \<Rightarrow> Inr (mc\<lparr>progressWave := Some (pw\<lparr>pw_width := position\<rparr>)\<rparr>))"

fun stretch_entries ::
  "(canvas \<Rightarrow> rat) \<Rightarrow> (string \<Rightarrow> rat \<times> rat) \<Rightarrow> rat \<Rightarrow> rat \<Rightarrow> rat \<times> rat \<Rightarrow> backup \<Rightarrow> rat
     \<Rightarrow> entry list \<Rightarrow> error + entry list" where
  "stretch_entries offsetLeft dims totalWidth ratio view backupImg start [] = Inr []"
| "stretch_entries offsetLeft dims totalWidth ratio view backupImg start (entry # rest) =
     bind_err (stretchBackimage offsetLeft dims start totalWidth ratio view backupImg
                 (entry\<lparr>drawTimeout := None\<rparr>)) (\<lambda>(entry, start).
     bind_err (stretch_entries offsetLeft dims totalWidth ratio view backupImg start rest)
       (\<lambda>rest. Inr (entry # rest)))"

definition mc_stretchBackimage ::
  "(canvas \<Rightarrow> rat) \<Rightarrow> (string \<Rightarrow> rat \<times> rat) \<Rightarrow> rat \<Rightarrow> rat \<Rightarrow> rat \<Rightarrow> multicanvas
     \<Rightarrow> error + multicanvas" where
  \<comment> \<open>\<open>clientWidth\<close> is the wrapper's; recentring the view, the base class's work, is
      left out.\<close>
  "mc_stretchBackimage offsetLeft dims clientWidth desiredWidth progressFraction mc =
     (if pixelRatio (params mc) = 0 then Inl NonFinite
      else
        let totalCanvasWidth = of_int (js_round (desiredWidth / pixelRatio (params mc)));
            progressPos = progressFraction * totalCanvasWidth;
            mc = mc\<lparr>mc_width := desiredWidth\<rparr>;
            view = (max (progressPos - clientWidth) 0, progressPos + clientWidth)
        in bind_err (stretch_entries offsetLeft dims totalCanvasWidth (pixelRatio (params mc)) view
                       (case backupImage mc of None \<Rightarrow> BackupNull
                        | Some imgs \<Rightarrow> BackupArray imgs) 0 (canvases mc)) (\<lambda>es.
           updateProgress progressPos (mc\<lparr>canvases := es\<rparr>)))"

fun collect_urls :: "encoder \<Rightarrow> encoder \<Rightarrow> entry list \<Rightarrow> error + string list option" where
  \<comment> \<open>The data URLs of the canvases; \<open>None\<close> when one of them is the empty string.\<close>
  "collect_urls toDataURL toBlob [] = Inr (Some [])"
| "collect_urls toDataURL toBlob (e # es) =
     bind_err (dataURL_of (entry_getImage toDataURL toBlob ''image/png'' 1 ''dataURL'' e)) (\<lambda>u.
       if u = Some [] then Inr None
       else bind_err (collect_urls toDataURL toBlob es) (\<lambda>r.
              Inr (map_option (\<lambda>us. (case u of None \<Rightarrow> ''undefined'' | Some v \<Rightarrow> v) # us) r)))"

definition setBackupImage :: "encoder \<Rightarrow> encoder \<Rightarrow> multicanvas \<Rightarrow> error + multicanvas" where
  \<comment> \<open>One run of the poll; where it schedules itself again the renderer is unchanged.\<close>
  "setBackupImage toDataURL toBlob mc =
     (if backupImage mc \<noteq> None then Inr mc
      else if \<not> list_all drawn (canvases mc) \<or> length (canvases mc) < 1 then Inr mc
      else bind_err (collect_urls toDataURL toBlob (canvases mc)) (\<lambda>r.
             case r of None \<Rightarrow> Inr mc | Some urls \<Rightarrow> Inr (mc\<lparr>backupImage := Some urls\<rparr>)))"

text \<open>
  The result of \<open>getImage\<close> on the set: one data URL, an array of data URLs, a promise
  of all blobs, or \<open>undefined\<close>.
\<close>

datatype mc_image =
    SingleImage string
  | ImageList "string list"
  | Blobs "string list promise"
  | NoImage

fun promise_all :: "'a promise list \<Rightarrow> 'a list promise" where
  "promise_all [] = Resolves []"
| "promise_all (Rejects e # ps) = Rejects e"
| "promise_all (Resolves x # ps) =
     (case promise_all ps of Rejects e \<Rightarrow> Rejects e | Resolves xs \<Rightarrow> Resolves (x # xs))"

fun images_of :: "(entry \<Rightarrow> error + entry_image) \<Rightarrow> entry list \<Rightarrow> error + entry_image list" where
  \<comment> \<open>\<open>canvases.map(entry => entry.getImage(...))\<close>, stopped by the first exception.\<close>
  "images_of f [] = Inr []"
| "images_of f (e # es) =
     bind_err (f e) (\<lambda>img. bind_err (images_of f es) (\<lambda>imgs. Inr (img # imgs)))"

definition mc_getImage ::
  "encoder \<Rightarrow> encoder \<Rightarrow> string \<Rightarrow> rat \<Rightarrow> string \<Rightarrow> multicanvas \<Rightarrow> error + mc_image" where
  "mc_getImage toDataURL toBlob format quality type mc =
     (if type = ''blob''
      then bind_err (images_of (entry_getImage toDataURL toBlob format quality type) (canvases mc))
             (\<lambda>imgs. Inr (Blobs (promise_all
                        (map (\<lambda>img. case img of EntryBlob p \<Rightarrow> p | _ \<Rightarrow> Rejects TypeError) imgs))))
      else if type = ''dataURL''
      then bind_err (images_of (entry_getImage toDataURL toBlob format quality type) (canvases mc))
             (\<lambda>imgs.
                let images = map (\<lambda>img. case img of EntryDataURL u \<Rightarrow> u | _ \<Rightarrow> []) imgs
                in if length images > 1 then Inr (ImageList images)
                   else (case images of [] \<Rightarrow> Inr NoImage | u # us \<Rightarrow> Inr (SingleImage u)))
      else Inr NoImage)"

section \<open>Preparing a draw: bars and lines\<close>

text \<open>
  The peaks handed to \<open>drawBars\<close> and \<open>drawWave\<close> are one array of samples or an array
  of such arrays, one per channel. The render callbacks act on the renderer only
  through \<open>setHeight\<close>, \<open>fillRect\<close> and \<open>drawLine\<close>, whose arguments do not depend on what
  the earlier calls did; a draw is modelled by the list of these calls, in order. Every
  \<open>fillRect\<close> and \<open>drawLine\<close> carries the index of the channel it draws. The animation
  frame in which \<open>prepareDraw\<close> runs its body is modelled by running the body at once.
  A result \<open>None\<close> is a draw whose loop never ends.
\<close>

datatype peaks = Samples "rat list" | Channels "rat list list"

datatype mc_call =
    CallSetHeight rat
  | CallFillRect rat rat rat rat rat int
  | CallDrawLine "rat list" "rat option" rat rat "rat option" "rat option" int

record draw_info =
  di_absmax :: "rat option"
  di_hasMinVals :: bool
  di_height :: rat
  di_offsetY :: rat
  di_halfH :: rat
  di_peaks :: "rat list"
  di_channelIndex :: int

type_synonym draw_result = "(error + mc_call list) option"

definition hideChannel :: "multicanvas \<Rightarrow> int \<Rightarrow> bool" where
  "hideChannel mc channelIndex \<longleftrightarrow>
     splitChannels (params mc) \<and> channelIndex \<in> set (filterChannels (params mc))"

definition absMax :: "rat list \<Rightarrow> rat option" where
  \<comment> \<open>Modelled from the spec: \<open>util.absMax\<close> is not part of the sources. The largest
      magnitude of the samples; for no samples the maximum is the sentinel -Infinity,
      which is \<open>None\<close> here.\<close>
  "absMax values =
     (if values = [] then None
      else Some (if - Min (set values) > Max (set values) then - Min (set values)
                 else Max (set values)))"

definition util_max :: "rat option list \<Rightarrow> rat option" where
  \<comment> \<open>Modelled from the spec: \<open>util.max\<close> is not part of the sources. The largest value,
      -Infinity (\<open>None\<close>) when no value is larger than -Infinity.\<close>
  "util_max values =
     (if [v. Some v \<leftarrow> values] = [] then None else Some (Max (set [v. Some v \<leftarrow> values])))"

definition prepareDraw_channel ::
  "multicanvas \<Rightarrow> rat list \<Rightarrow> int \<Rightarrow> (draw_info \<Rightarrow> draw_result) \<Rightarrow> int option
     \<Rightarrow> rat option option \<Rightarrow> draw_result" where
  \<comment> \<open>\<open>prepareDraw\<close> on the samples of one channel; \<open>drawIndex\<close> and \<open>normalizedMax\<close> are
      \<open>None\<close> when undefined.\<close>
  "prepareDraw_channel mc peaks channelIndex fn drawIndex normalizedMax =
     (if hideChannel mc channelIndex then Some (Inr [])
      else
        let absmax = (if barHeight (params mc) = 0 then None
                      else Some (1 / barHeight (params mc)));
            absmax = (if normalize_p (params mc)
                      then (case normalizedMax of None \<Rightarrow> absMax peaks | Some m \<Rightarrow> m)
                      else absmax);
            hasMinVals = (\<exists>val \<in> set peaks. val < 0);
            height = height_p (params mc) * pixelRatio (params mc);
            halfH = height / 2;
            offsetY = (case drawIndex of None \<Rightarrow> 0 | Some d \<Rightarrow> height * of_int d);
            offsetY = (if overlay (params mc) then 0 else offsetY)
        in fn \<lparr>di_absmax = absmax, di_hasMinVals = hasMinVals, di_height = height,
                di_offsetY = offsetY, di_halfH = halfH, di_peaks = peaks,
                di_channelIndex = channelIndex\<rparr>)"

fun seq_draws :: "draw_result list \<Rightarrow> draw_result" where
  "seq_draws [] = Some (Inr [])"
| "seq_draws (None # ds) = None"
| "seq_draws (Some (Inl e) # ds) = Some (Inl e)"
| "seq_draws (Some (Inr cs) # ds) =
     (case seq_draws ds of
        None \<Rightarrow> None
      | Some (Inl e) \<Rightarrow> Some (Inl e)
      | Some (Inr cs') \<Rightarrow> Some (Inr (cs @ cs')))"

definition drawIndex_of :: "multicanvas \<Rightarrow> nat \<Rightarrow> int" where
  \<comment> \<open>\<open>filteredChannels.indexOf(channelPeaks)\<close> for the channel at index \<open>i\<close>, the
      channels being distinct arrays: its rank among the channels not hidden, or -1.\<close>
  "drawIndex_of mc i =
     (if hideChannel mc (int i) then - 1
      else int (length (filter (\<lambda>j. \<not> hideChannel mc (int j)) [0..<i])))"

definition prepareDraw ::
  "multicanvas \<Rightarrow> peaks \<Rightarrow> int \<Rightarrow> (draw_info \<Rightarrow> draw_result) \<Rightarrow> draw_result" where
  "prepareDraw mc peaks channelIndex fn =
     (case peaks of
        Samples ps \<Rightarrow> prepareDraw_channel mc ps channelIndex fn None None
      | Channels [] \<Rightarrow> prepareDraw_channel mc [] channelIndex fn None None
      | Channels (c # cs) \<Rightarrow>
          if splitChannels (params mc) then
            (let channels = c # cs;
                 filteredChannels = filter (\<lambda>i. \<not> hideChannel mc (int i)) [0..<length channels];
                 setHeight = (if \<not> overlay (params mc)
                              then [CallSetHeight (of_nat (max (length filteredChannels) 1)
                                      * height_p (params mc) * pixelRatio (params mc))]
                              else []);
                 overallAbsMax = (if relativeNormalization (params mc)
                                  then Some (util_max (map absMax channels)) else None)
             in seq_draws (Some (Inr setHeight) #
                  map (\<lambda>i. prepareDraw_channel mc (channels ! i) (int i) fn
                              (Some (drawIndex_of mc i)) overallAbsMax)
                      [0..<length channels]))
          else prepareDraw_channel mc c channelIndex fn None None)"

text \<open>The gap between bars and the step from one bar to the next, as \<open>drawBars\<close> computes them.\<close>

definition bar_gap :: "params \<Rightarrow> rat" where
  "bar_gap ps =
     (case barGap ps of
        None \<Rightarrow> max (pixelRatio ps) (of_int (js_trunc (barWidth ps * pixelRatio ps / 2)))
      | Some g \<Rightarrow> max (pixelRatio ps) (g * pixelRatio ps))"

definition bar_step :: "params \<Rightarrow> rat" where
  "bar_step ps = barWidth ps * pixelRatio ps + bar_gap ps"

definition abs_at :: "rat list \<Rightarrow> int \<Rightarrow> rat option" where
  \<comment> \<open>\<open>Math.abs(peaks[k])\<close>: NaN, here \<open>None\<close>, for a read outside the array.\<close>
  "abs_at peaks k = (if 0 \<le> k \<and> k < int (length peaks) then Some \<bar>peaks ! nat k\<bar> else None)"

definition higher :: "rat option \<Rightarrow> rat \<Rightarrow> rat" where
  \<comment> \<open>\<open>if (newPeak > peak) peak = newPeak\<close>; a comparison with NaN is false.\<close>
  "higher newPeak peak = (case newPeak of None \<Rightarrow> peak | Some v \<Rightarrow> if v > peak then v else peak)"

function scan_peaks :: "bool \<Rightarrow> rat list \<Rightarrow> int \<Rightarrow> int \<Rightarrow> rat \<Rightarrow> rat" where
  \<comment> \<open>The \<open>do ... while\<close> loop: the body runs before the test.\<close>
  "scan_peaks hasMinVals peaks peakIndexRange peakIndexEnd peak =
     (if peakIndexRange + (if hasMinVals then 2 else 1) < peakIndexEnd
      then scan_peaks hasMinVals peaks (peakIndexRange + (if hasMinVals then 2 else 1))
             peakIndexEnd (higher (abs_at peaks peakIndexRange) peak)
      else higher (abs_at peaks peakIndexRange) peak)"
  by pat_completeness auto
termination
  by (relation "measure (\<lambda>(m, ps, i, e, p). nat (e - i))") (auto split: if_splits)

definition bar_call :: "multicanvas \<Rightarrow> draw_info \<Rightarrow> rat \<Rightarrow> error + mc_call" where
  \<comment> \<open>The body of the bar loop at \<open>peakIndex\<close>: the \<open>fillRect\<close> it issues.\<close>
  "bar_call mc info peakIndex =
     (let peakIndexScale = (if di_hasMinVals info then 2 else 1);
          length = of_nat (length (di_peaks info)) / of_int peakIndexScale;
          bar = barWidth (params mc) * pixelRatio (params mc);
          step = bar_step (params mc)
      in if mc_width mc = 0 then Inl NonFinite
         else
           let scale = length / mc_width mc;
               peakIndexRange = \<lfloor>peakIndex * scale\<rfloor> * peakIndexScale;
               peakIndexEnd = \<lfloor>(peakIndex + step) * scale\<rfloor> * peakIndexScale;
               peak = scan_peaks (di_hasMinVals info) (di_peaks info) peakIndexRange peakIndexEnd 0
           in (case di_absmax info of
                 None \<Rightarrow> Inl NonFinite
               | Some absmax \<Rightarrow>
                   if absmax = 0 then Inl NonFinite
                   else
                     let h = of_int (js_round (peak / absmax * di_halfH info));
                         h = (if barMinHeight (params mc) \<noteq> 0
                              then max h (barMinHeight (params mc)) else h)
                     in Inr (CallFillRect (peakIndex + halfPixel mc)
                               (di_halfH info - h + di_offsetY info)
                               (bar + halfPixel mc) (h * 2) (mc_barRadius mc)
                               (di_channelIndex info))))"

partial_function (option) bars_loop ::
  "multicanvas \<Rightarrow> draw_info \<Rightarrow> rat \<Rightarrow> rat \<Rightarrow> mc_call list \<Rightarrow> (error + mc_call list) option" where
  "bars_loop mc info lastPx peakIndex acc =
     (if peakIndex < lastPx
      then (case bar_call mc info peakIndex of
              Inl e \<Rightarrow> Some (Inl e)
            | Inr call \<Rightarrow> bars_loop mc info lastPx (peakIndex + bar_step (params mc)) (acc @ [call]))
      else Some (Inr acc))"

definition drawBars_fn ::
  "multicanvas \<Rightarrow> rat option \<Rightarrow> rat option \<Rightarrow> draw_info \<Rightarrow> draw_result" where
  \<comment> \<open>The callback of \<open>drawBars\<close>; with \<open>end\<close> undefined the test \<open>peakIndex < last\<close> is false
      (\<open>lastPx\<close> is the source's \<open>last\<close>).\<close>
  "drawBars_fn mc start end info =
     (case start of
        None \<Rightarrow> Some (Inr [])
      | Some first \<Rightarrow>
          (case end of
             None \<Rightarrow> Some (Inr [])
           | Some lastPx \<Rightarrow> bars_loop mc info lastPx first []))"

definition drawBars :: "multicanvas \<Rightarrow> peaks \<Rightarrow> int \<Rightarrow> rat option \<Rightarrow> rat option \<Rightarrow> draw_result" where
  "drawBars mc peaks channelIndex start end =
     prepareDraw mc peaks channelIndex (drawBars_fn mc start end)"




section \<open>The states of a renderer\<close>

text \<open>
  The renderers that arise from the constructor, called with the options \<open>ps\<close>, by the
  operations of the class, each with whatever arguments and answers of the host. An
  operation that raises an exception gives no state here.
\<close>

inductive reachable :: "params \<Rightarrow> multicanvas \<Rightarrow> bool" for ps :: params where
  constructed: "MultiCanvas_new ps width0 height0 = Inr mc \<Longrightarrow> reachable ps mc"
| created: "reachable ps mc \<Longrightarrow> createElements mc = Inr mc' \<Longrightarrow> reachable ps mc'"
| resized: "reachable ps mc \<Longrightarrow> resize offsetLeft w h mc = Inr mc' \<Longrightarrow> reachable ps mc'"
| added: "reachable ps mc \<Longrightarrow> addCanvas mc = Inr mc' \<Longrightarrow> reachable ps mc'"
| removed: "reachable ps mc \<Longrightarrow> removeCanvas mc = Inr mc' \<Longrightarrow> reachable ps mc'"
| cleared: "reachable ps mc \<Longrightarrow> mc_clearWave mc = Inr mc' \<Longrightarrow> reachable ps mc'"
| filled: "reachable ps mc \<Longrightarrow> fillRect x y w h radius channelIndex mc = Inr mc'
            \<Longrightarrow> reachable ps mc'"
| lined: "reachable ps mc \<Longrightarrow>
            drawLine bounds wrapperRect peaks absmax halfH offsetY start end channelIndex mc = Inr mc'
            \<Longrightarrow> reachable ps mc'"
| fired: "reachable ps mc \<Longrightarrow> fire_timeout toDataURL toBlob i mc = Inr mc' \<Longrightarrow> reachable ps mc'"
| stretched: "reachable ps mc \<Longrightarrow>
            mc_stretchBackimage offsetLeft dims clientWidth desiredWidth progressFraction mc = Inr mc'
            \<Longrightarrow> reachable ps mc'"
| progressed: "reachable ps mc \<Longrightarrow> updateProgress position mc = Inr mc' \<Longrightarrow> reachable ps mc'"
| backed_up: "reachable ps mc \<Longrightarrow> setBackupImage toDataURL toBlob mc = Inr mc'
            \<Longrightarrow> reachable ps mc'"

definition shape :: "entry \<Rightarrow> bool \<times> bool \<times> bool" where
  \<comment> \<open>The flag of an entry and which of its two canvases it has.\<close>
  "shape e = (e_hasProgressCanvas e, wave e \<noteq> None, progress e \<noteq> None)"

section \<open>A concrete renderer\<close>

text \<open>
  A configuration with pixel ratio 1 and canvases of at most 398 pixels, the renderer it
  gives after \<open>init\<close>, and a host whose \<open>offsetLeft\<close> is the CSS left of the element.
\<close>

definition demo_params :: params where
  "demo_params =
     \<lparr>waveColor = ColorStr ''#999'', progressColor = ColorStr ''#555'', pixelRatio = 1,
      maxCanvasWidth = 398, barWidth = 2, barGap = None, barMinHeight = 0, barRadius = 0,
      barHeight = 1, height_p = 128, normalize_p = False, vertical_p = False,
      splitChannels = False, overlay = False, relativeNormalization = False,
      filterChannels = [], channelColors = (\<lambda>ch. None)\<rparr>"

definition demo_mc :: multicanvas where
  "demo_mc =
     \<lparr>params = demo_params, mc_width = 0, mc_height = 128, mc_maxCanvasWidth = 398,
      maxCanvasElementWidth = 398, hasProgressCanvas = True, halfPixel = 1 / 2,
      canvases = [\<lparr>wave = Some (new_canvas 0), progress = Some (new_canvas 0),
                    entry_start = 0, entry_end = 1, e_hasProgressCanvas = True,
                    e_halfPixel = 1 / 2, drawTimeout = None, drawn = False\<rparr>],
      progressWave = Some \<lparr>pw_width = 0, pw_display = ''none''\<rparr>,
      overlap = 2, mc_barRadius = 0, mc_vertical = False, backupImage = None\<rparr>"

definition css_left :: "canvas \<Rightarrow> rat" where
  "css_left c = (case style_left c of None \<Rightarrow> 0 | Some l \<Rightarrow> l)"

text \<open>
  The same renderer with a width of 8 pixels; with split channels and channel 0 filtered
  out; and with channel 0 in the filter but split channels off.
\<close>

definition demo_wide :: multicanvas where
  "demo_wide = demo_mc\<lparr>mc_width := 8\<rparr>"



text \<open>
  A host encoder that answers with the format it is asked for, and an entry without a
  progress canvas: the only entry of a renderer 4 pixels wide, with a draw pending.
\<close>

definition demo_encode :: encoder where
  "demo_encode c format quality = ''data:'' @ format"

definition demo_canvas :: canvas where
  "demo_canvas = \<lparr>cv_width = 4, cv_height = 20, style_left = Some 0, style_width = Some 4,
                   backimg = Some [], ops = []\<rparr>"

definition demo_entry :: entry where
  "demo_entry = \<lparr>wave = Some demo_canvas, progress = None, entry_start = 0, entry_end = 1,
                  e_hasProgressCanvas = False, e_halfPixel = 1 / 2,
                  drawTimeout = Some \<lparr>p_peaks = [1 / 2, - (1 / 2), 1, - 1], p_absmax = Some 1,
                     p_halfH = 10, p_offsetY = 0, p_start = Some 0, p_end = Some 2, p_delay = 0\<rparr>,
                  drawn = False\<rparr>"

section \<open>Basic facts\<close>

declare add_canvases.simps [simp del] remove_canvases.simps [simp del] scan_peaks.simps [simp del]
  fillRect_loop.simps [simp del]

declare bars_loop.simps [code]

lemma bind_err_Inr: "bind_err m f = Inr y \<longleftrightarrow> (\<exists>x. m = Inr x \<and> f x = Inr y)"
  by (cases m) (auto simp: bind_err_def)

lemma bind_err_InrE:
  assumes "bind_err m f = Inr y"
  obtains x where "m = Inr x" "f x = Inr y"
  using assms by (cases m) (auto simp: bind_err_def)

lemma bind_err_simps [simp]: "bind_err (Inr x) f = f x" "bind_err (Inl e) f = Inl e"
  by (auto simp: bind_err_def)

lemma on_wave_Inr: "on_wave f e = Inr e' \<longleftrightarrow> (\<exists>c. wave e = Some c \<and> e' = e\<lparr>wave := Some (f c)\<rparr>)"
  by (auto simp: on_wave_def split: option.splits)

lemma on_progress_Inr:
  "on_progress f e = Inr e' \<longleftrightarrow> (\<exists>c. progress e = Some c \<and> e' = e\<lparr>progress := Some (f c)\<rparr>)"
  by (auto simp: on_progress_def split: option.splits)

lemma addCanvas_Inr:
  "addCanvas mc = Inr mc' \<Longrightarrow> \<exists>e. mc' = mc\<lparr>canvases := canvases mc @ [e]\<rparr>"
  by (auto simp: addCanvas_def Let_def bind_err_Inr split: if_splits option.splits)

lemma removeCanvas_Inr:
  "removeCanvas mc = Inr mc' \<Longrightarrow> canvases mc \<noteq> [] \<and> mc' = mc\<lparr>canvases := butlast (canvases mc)\<rparr>"
  by (auto simp: removeCanvas_def Let_def split: if_splits)

lemma add_canvases_Inr:
  "add_canvases r mc = Inr mc' \<Longrightarrow>
     (\<exists>es. mc' = mc\<lparr>canvases := es\<rparr>) \<and> int (length (canvases mc')) = max r (int (length (canvases mc)))"
proof (induction r mc rule: add_canvases.induct)
  case (1 r mc)
  show ?case
  proof (cases "int (length (canvases mc)) < r")
    case True
    with "1.prems" obtain m where a: "addCanvas mc = Inr m" and b: "add_canvases r m = Inr mc'"
      by (auto simp: add_canvases.simps [of r mc] split: sum.splits)
    from addCanvas_Inr [OF a] obtain e where m: "m = mc\<lparr>canvases := canvases mc @ [e]\<rparr>" by blast
    from "1.IH" [OF True a b] m True show ?thesis by auto
  next
    case False
    with "1.prems" show ?thesis by (auto simp: add_canvases.simps [of r mc] intro: exI [of _ "canvases mc"])
  qed
qed

lemma remove_canvases_Inr:
  "remove_canvases r mc = Inr mc' \<Longrightarrow>
     (\<exists>es. mc' = mc\<lparr>canvases := es\<rparr>) \<and> int (length (canvases mc')) = min r (int (length (canvases mc)))"
proof (induction r mc rule: remove_canvases.induct)
  case (1 r mc)
  show ?case
  proof (cases "int (length (canvases mc)) > r")
    case True
    with "1.prems" obtain m where a: "removeCanvas mc = Inr m" and b: "remove_canvases r m = Inr mc'"
      by (auto simp: remove_canvases.simps [of r mc] split: sum.splits)
    from removeCanvas_Inr [OF a] have m: "m = mc\<lparr>canvases := butlast (canvases mc)\<rparr>" and ne: "canvases mc \<noteq> []" by auto
    have "int (length (canvases m)) \<ge> r" using m ne True by (cases "canvases mc" rule: rev_cases) auto
    with "1.IH" [OF True a b] m True show ?thesis by auto
  next
    case False
    with "1.prems" show ?thesis by (auto simp: remove_canvases.simps [of r mc] intro: exI [of _ "canvases mc"])
  qed
qed


lemma update_entries_Cons:
  "update_entries ol mc i cw lo (e # rest) =
     bind_err (entry_step ol mc (width_at mc i cw) lo e) (\<lambda>e'.
     bind_err (update_entries ol mc (Suc i) (width_at mc i cw)
                 (lo + width_at mc i cw / pixelRatio (params mc)) rest) (\<lambda>rest'. Inr (e' # rest')))"
  by (cases "setLeft lo e"; cases "int i = int (length (canvases mc)) - 1")
     (simp_all add: entry_step_def width_at_def Let_def bind_err_def split: sum.splits)

declare update_entries.simps(2) [simp del]

lemma update_entries_length:
  "update_entries ol mc i cw lo es = Inr es' \<Longrightarrow> length es' = length es"
proof (induction es arbitrary: i cw lo es')
  case Nil then show ?case by simp
next
  case (Cons e es)
  from Cons.prems obtain e' rest' where
    "update_entries ol mc (Suc i) (width_at mc i cw) (lo + width_at mc i cw / pixelRatio (params mc)) es = Inr rest'"
    "es' = e' # rest'"
    unfolding update_entries_Cons bind_err_Inr by auto
  with Cons.IH show ?case by auto
qed


lemma requiredCanvases_canvases [simp]: "requiredCanvases (mc\<lparr>canvases := es\<rparr>) = requiredCanvases mc"
  by (simp add: requiredCanvases_def)

lemma updateSize_Inr:
  assumes "updateSize ol mc = Inr mc'"
  obtains m1 m2 es where
    "pixelRatio (params mc) \<noteq> 0" "maxCanvasElementWidth mc + overlap mc \<noteq> 0"
    "add_canvases (requiredCanvases mc) mc = Inr m1"
    "remove_canvases (requiredCanvases m1) m1 = Inr m2"
    "update_entries ol m2 0 (mc_maxCanvasWidth m2 + of_int (overlap m2)) 0 (canvases m2) = Inr es"
    "mc' = m2\<lparr>canvases := es,
                 progressWave := (if es = [] then progressWave m2
                                  else map_option (\<lambda>pw. pw\<lparr>pw_display := ''block''\<rparr>)
                                         (progressWave m2))\<rparr>"
proof -
  from assms have nz: "pixelRatio (params mc) \<noteq> 0" "maxCanvasElementWidth mc + overlap mc \<noteq> 0"
    by (auto simp: updateSize_def split: if_splits)
  with assms have h: "bind_err (add_canvases (requiredCanvases mc) mc) (\<lambda>mc.
        bind_err (remove_canvases (requiredCanvases mc) mc) (\<lambda>mc.
        bind_err (update_entries ol mc 0
                    (mc_maxCanvasWidth mc + of_int (overlap mc)) 0 (canvases mc)) (\<lambda>es.
        Inr (mc\<lparr>canvases := es,
                 progressWave := (if es = [] then progressWave mc
                                  else map_option (\<lambda>pw. pw\<lparr>pw_display := ''block''\<rparr>)
                                         (progressWave mc))\<rparr>)))) = Inr mc'"
    by (simp add: updateSize_def)
  from h obtain m1 where a: "add_canvases (requiredCanvases mc) mc = Inr m1"
    and h1: "bind_err (remove_canvases (requiredCanvases m1) m1) (\<lambda>mc.
        bind_err (update_entries ol mc 0
                    (mc_maxCanvasWidth mc + of_int (overlap mc)) 0 (canvases mc)) (\<lambda>es.
        Inr (mc\<lparr>canvases := es,
                 progressWave := (if es = [] then progressWave mc
                                  else map_option (\<lambda>pw. pw\<lparr>pw_display := ''block''\<rparr>)
                                         (progressWave mc))\<rparr>))) = Inr mc'"
    by (rule bind_err_InrE)
  from h1 obtain m2 where r: "remove_canvases (requiredCanvases m1) m1 = Inr m2"
    and h2: "bind_err (update_entries ol m2 0
                    (mc_maxCanvasWidth m2 + of_int (overlap m2)) 0 (canvases m2)) (\<lambda>es.
        Inr (m2\<lparr>canvases := es,
                 progressWave := (if es = [] then progressWave m2
                                  else map_option (\<lambda>pw. pw\<lparr>pw_display := ''block''\<rparr>)
                                         (progressWave m2))\<rparr>)) = Inr mc'"
    by (rule bind_err_InrE)
  from h2 obtain es where u: "update_entries ol m2 0
                    (mc_maxCanvasWidth m2 + of_int (overlap m2)) 0 (canvases m2) = Inr es"
    and "Inr (m2\<lparr>canvases := es,
                 progressWave := (if es = [] then progressWave m2
                                  else map_option (\<lambda>pw. pw\<lparr>pw_display := ''block''\<rparr>)
                                         (progressWave m2))\<rparr>) = (Inr mc' :: error + multicanvas)"
    by (rule bind_err_InrE)
  then show ?thesis using that [OF nz a r u] by simp
qed

lemma updateSize_count:
  assumes "updateSize ol mc = Inr mc'"
  shows "int (length (canvases mc')) = requiredCanvases mc"
proof -
  from assms obtain m1 m2 es where
    a: "add_canvases (requiredCanvases mc) mc = Inr m1" and
    r: "remove_canvases (requiredCanvases m1) m1 = Inr m2" and
    u: "update_entries ol m2 0 (mc_maxCanvasWidth m2 + of_int (overlap m2)) 0 (canvases m2) = Inr es" and
    m: "mc' = m2\<lparr>canvases := es,
                 progressWave := (if es = [] then progressWave m2
                                  else map_option (\<lambda>pw. pw\<lparr>pw_display := ''block''\<rparr>)
                                         (progressWave m2))\<rparr>"
    by (rule updateSize_Inr)
  from add_canvases_Inr [OF a] obtain es1 where m1: "m1 = mc\<lparr>canvases := es1\<rparr>"
    and l1: "int (length (canvases m1)) = max (requiredCanvases mc) (int (length (canvases mc)))" by blast
  have rq: "requiredCanvases m1 = requiredCanvases mc" using m1 by simp
  from remove_canvases_Inr [OF r] have "int (length (canvases m2)) = min (requiredCanvases m1) (int (length (canvases m1)))" by blast
  with l1 rq have "int (length (canvases m2)) = requiredCanvases mc" by simp
  with update_entries_length [OF u] m show ?thesis by simp
qed


lemma entry_step_Inr:
  assumes "entry_step ol mc cw lo e = Inr e'"
  shows "wave e \<noteq> None \<and> (e_hasProgressCanvas e \<longrightarrow> progress e \<noteq> None) \<and>
         js_round (mc_width mc / pixelRatio (params mc)) \<noteq> 0 \<and> progressWave mc \<noteq> None \<and>
         e_hasProgressCanvas e' = e_hasProgressCanvas e \<and>
         entry_layout e' =
           (Some (Some lo, cw, mc_height mc, Some (of_int (js_round (cw / pixelRatio (params mc))))),
            if e_hasProgressCanvas e
            then Some (Some lo, cw, mc_height mc, Some (of_int (js_round (cw / pixelRatio (params mc)))))
            else map_option canvas_layout (progress e))"
  using assms
  by (auto simp: entry_step_def setLeft_def mc_updateDimensions_def updateDimensions_def
        clearWave_def setBackimage_def clear_ops_def emit_def on_wave_def on_progress_def
        bind_err_def Let_def entry_layout_def canvas_layout_def
      split: option.splits if_splits sum.splits)

lemma entry_step_total:
  assumes "wave e \<noteq> None" "e_hasProgressCanvas e \<longrightarrow> progress e \<noteq> None"
    "js_round (mc_width mc / pixelRatio (params mc)) \<noteq> 0" "progressWave mc \<noteq> None"
  shows "\<exists>e'. entry_step ol mc cw lo e = Inr e'"
  using assms
  by (auto simp: entry_step_def setLeft_def mc_updateDimensions_def updateDimensions_def
        clearWave_def setBackimage_def clear_ops_def emit_def on_wave_def on_progress_def
        bind_err_def Let_def
      split: option.splits if_splits sum.splits)


lemma entries_ok_canvases:
  "entries_ok (mc\<lparr>canvases := es\<rparr>) \<longleftrightarrow> list_all (entry_ok (hasProgressCanvas mc)) es"
  by (simp add: entries_ok_def)

lemma addCanvas_total:
  assumes "hasProgressCanvas mc \<longrightarrow> progressWave mc \<noteq> None"
  shows "\<exists>e. addCanvas mc = Inr (mc\<lparr>canvases := canvases mc @ [e]\<rparr>) \<and> entry_ok (hasProgressCanvas mc) e"
  using assms by (auto simp: addCanvas_def Let_def entry_ok_def split: option.splits)

lemma add_canvases_total:
  "entries_ok mc \<Longrightarrow> hasProgressCanvas mc \<longrightarrow> progressWave mc \<noteq> None \<Longrightarrow>
     \<exists>mc'. add_canvases r mc = Inr mc' \<and> entries_ok mc'"
proof (induction r mc rule: add_canvases.induct)
  case (1 r mc)
  show ?case
  proof (cases "int (length (canvases mc)) < r")
    case True
    from addCanvas_total [OF "1.prems"(2)] obtain e where
      a: "addCanvas mc = Inr (mc\<lparr>canvases := canvases mc @ [e]\<rparr>)" and ok: "entry_ok (hasProgressCanvas mc) e"
      by blast
    have "entries_ok (mc\<lparr>canvases := canvases mc @ [e]\<rparr>)"
      using "1.prems"(1) ok by (simp add: entries_ok_def)
    from "1.IH" [OF True a this] "1.prems"(2) obtain mc' where
      "add_canvases r (mc\<lparr>canvases := canvases mc @ [e]\<rparr>) = Inr mc'" "entries_ok mc'" by auto
    with True a show ?thesis by (simp add: add_canvases.simps [of r mc])
  next
    case False
    with "1.prems" show ?thesis by (simp add: add_canvases.simps [of r mc])
  qed
qed

lemma removeCanvas_total:
  assumes "entries_ok mc" "canvases mc \<noteq> []"
  shows "removeCanvas mc = Inr (mc\<lparr>canvases := butlast (canvases mc)\<rparr>)"
proof -
  from assms have "entry_ok (hasProgressCanvas mc) (last (canvases mc))"
    by (cases "canvases mc" rule: rev_cases) (auto simp: entries_ok_def)
  with assms show ?thesis by (auto simp: removeCanvas_def Let_def entry_ok_def)
qed

lemma remove_canvases_total:
  "entries_ok mc \<Longrightarrow> 0 \<le> r \<Longrightarrow> \<exists>mc'. remove_canvases r mc = Inr mc' \<and> entries_ok mc'"
proof (induction r mc rule: remove_canvases.induct)
  case (1 r mc)
  show ?case
  proof (cases "int (length (canvases mc)) > r")
    case True
    with "1.prems" have ne: "canvases mc \<noteq> []" by auto
    from removeCanvas_total [OF "1.prems"(1) ne]
    have a: "removeCanvas mc = Inr (mc\<lparr>canvases := butlast (canvases mc)\<rparr>)" .
    have "entries_ok (mc\<lparr>canvases := butlast (canvases mc)\<rparr>)"
      using "1.prems"(1) ne by (cases "canvases mc" rule: rev_cases) (auto simp: entries_ok_def)
    from "1.IH" [OF True a this "1.prems"(2)] obtain mc' where
      "remove_canvases r (mc\<lparr>canvases := butlast (canvases mc)\<rparr>) = Inr mc'" "entries_ok mc'" by auto
    with True a show ?thesis by (simp add: remove_canvases.simps [of r mc])
  next
    case False
    with "1.prems" show ?thesis by (simp add: remove_canvases.simps [of r mc])
  qed
qed

lemma entry_step_ok:
  assumes "entry_step ol mc cw lo e = Inr e'" "entry_ok flag e"
  shows "entry_ok flag e'"
proof -
  from entry_step_Inr [OF assms(1)] assms(2) show ?thesis
    by (auto simp: entry_ok_def entry_layout_def split: if_splits)
qed

lemma update_entries_total:
  assumes "list_all (entry_ok flag) es" "js_round (mc_width mc / pixelRatio (params mc)) \<noteq> 0"
    "progressWave mc \<noteq> None"
  shows "\<exists>es'. update_entries ol mc i cw lo es = Inr es' \<and> list_all (entry_ok flag) es'"
  using assms(1)
proof (induction es arbitrary: i cw lo)
  case Nil then show ?case by simp
next
  case (Cons e es)
  from Cons.prems have ok: "entry_ok flag e" and oks: "list_all (entry_ok flag) es" by auto
  from ok have "wave e \<noteq> None" "e_hasProgressCanvas e \<longrightarrow> progress e \<noteq> None"
    by (auto simp: entry_ok_def)
  from entry_step_total [OF this assms(2,3)] obtain e' where
    s: "entry_step ol mc (width_at mc i cw) lo e = Inr e'" by blast
  from Cons.IH [OF oks] obtain es' where
    r: "update_entries ol mc (Suc i) (width_at mc i cw) (lo + width_at mc i cw / pixelRatio (params mc)) es = Inr es'"
     and "list_all (entry_ok flag) es'" by blast
  with s entry_step_ok [OF s ok] show ?case by (simp add: update_entries_Cons)
qed


lemma js_round_nonneg: "0 \<le> x \<Longrightarrow> 0 \<le> js_round x"
  by (simp add: js_round_def)

lemma updateSize_total:
  assumes ok: "entries_ok mc" and pw: "progressWave mc \<noteq> None"
    and pr: "0 < pixelRatio (params mc)" and w: "0 \<le> mc_width mc"
    and d: "0 < maxCanvasElementWidth mc + overlap mc"
  shows "\<exists>mc'. updateSize ol mc = Inr mc'"
proof -
  let ?r = "requiredCanvases mc"
  let ?tw = "js_round (mc_width mc / pixelRatio (params mc))"
  have tw: "0 \<le> ?tw" using pr w by (intro js_round_nonneg) simp
  have "(0::rat) \<le> of_int ?tw / of_int (maxCanvasElementWidth mc + overlap mc)"
    using tw d by (intro divide_nonneg_pos) simp_all
  then have r0: "0 \<le> ?r" unfolding requiredCanvases_def
    by (metis ceiling_mono ceiling_zero)
  from add_canvases_total [OF ok, of ?r] pw obtain m1 where
    a: "add_canvases ?r mc = Inr m1" and ok1: "entries_ok m1" by auto
  from add_canvases_Inr [OF a] obtain es1 where m1: "m1 = mc\<lparr>canvases := es1\<rparr>" by blast
  from remove_canvases_total [OF ok1 r0] obtain m2 where
    r: "remove_canvases ?r m1 = Inr m2" and ok2: "entries_ok m2" by auto
  from remove_canvases_Inr [OF r] obtain es2 where m2: "m2 = m1\<lparr>canvases := es2\<rparr>"
    and l2: "int (length (canvases m2)) = min ?r (int (length (canvases m1)))" by blast
  have "\<exists>es. update_entries ol m2 0 (mc_maxCanvasWidth m2 + of_int (overlap m2)) 0 (canvases m2) = Inr es"
  proof (cases "canvases m2 = []")
    case True then show ?thesis by simp
  next
    case False
    then have "1 \<le> ?r" using l2 by (cases "canvases m2") auto
    then have "0 < of_int ?tw / (of_int (maxCanvasElementWidth mc + overlap mc) :: rat)"
      unfolding requiredCanvases_def by (simp add: less_ceiling_iff)
    then have "?tw \<noteq> 0" by auto
    then have "js_round (mc_width m2 / pixelRatio (params m2)) \<noteq> 0" using m1 m2 by simp
    moreover have "progressWave m2 \<noteq> None" using pw m1 m2 by simp
    moreover have "list_all (entry_ok (hasProgressCanvas m2)) (canvases m2)"
      using ok2 by (simp add: entries_ok_def)
    ultimately show ?thesis using update_entries_total by blast
  qed
  then obtain es where
    u: "update_entries ol m2 0 (mc_maxCanvasWidth m2 + of_int (overlap m2)) 0 (canvases m2) = Inr es" ..
  have rq: "requiredCanvases m1 = ?r" using m1 by simp
  show ?thesis using pr d a r u rq by (simp add: updateSize_def)
qed


lemma entry_step_again:
  assumes s: "entry_step ol mc cw lo e = Inr e1"
    and cfg: "pixelRatio (params mc1) = pixelRatio (params mc)" "mc_width mc1 = mc_width mc"
      "mc_height mc1 = mc_height mc" "progressWave mc1 \<noteq> None"
  shows "\<exists>e2. entry_step ol mc1 cw lo e1 = Inr e2 \<and> entry_layout e2 = entry_layout e1"
proof -
  note f = entry_step_Inr [OF s]
  from f have w1: "wave e1 \<noteq> None" and p1: "e_hasProgressCanvas e1 \<longrightarrow> progress e1 \<noteq> None"
    by (auto simp: entry_layout_def split: if_splits)
  from f cfg have tw: "js_round (mc_width mc1 / pixelRatio (params mc1)) \<noteq> 0" by simp
  from entry_step_total [OF w1 p1 tw cfg(4)] obtain e2 where
    s2: "entry_step ol mc1 cw lo e1 = Inr e2" by blast
  from entry_step_Inr [OF s2] f cfg have "entry_layout e2 = entry_layout e1"
    by (auto simp: entry_layout_def split: if_splits)
  with s2 show ?thesis by blast
qed

lemma update_entries_again:
  assumes cfg: "pixelRatio (params mc1) = pixelRatio (params mc)" "mc_width mc1 = mc_width mc"
      "mc_height mc1 = mc_height mc" "progressWave mc1 \<noteq> None"
      "length (canvases mc1) = length (canvases mc)" "mc_maxCanvasWidth mc1 = mc_maxCanvasWidth mc"
  shows "update_entries ol mc i cw lo es = Inr es1 \<Longrightarrow>
         \<exists>es2. update_entries ol mc1 i cw lo es1 = Inr es2 \<and>
               map entry_layout es2 = map entry_layout es1"
proof (induction es arbitrary: i cw lo es1)
  case Nil then show ?case by simp
next
  case (Cons e es)
  have wa: "width_at mc1 i cw = width_at mc i cw" using cfg by (simp add: width_at_def)
  from Cons.prems obtain e1 rest1 where
    s: "entry_step ol mc (width_at mc i cw) lo e = Inr e1" and
    r: "update_entries ol mc (Suc i) (width_at mc i cw)
          (lo + width_at mc i cw / pixelRatio (params mc)) es = Inr rest1" and
    es1: "es1 = e1 # rest1"
    unfolding update_entries_Cons bind_err_Inr by auto
  from entry_step_again [OF s cfg(1-4)] obtain e2 where
    s2: "entry_step ol mc1 (width_at mc i cw) lo e1 = Inr e2" and l: "entry_layout e2 = entry_layout e1"
    by blast
  from Cons.IH [OF r] obtain rest2 where
    r2: "update_entries ol mc1 (Suc i) (width_at mc i cw)
          (lo + width_at mc i cw / pixelRatio (params mc)) rest1 = Inr rest2" and
    ls: "map entry_layout rest2 = map entry_layout rest1" by blast
  show ?case using s2 r2 l ls es1 wa cfg(1) by (simp add: update_entries_Cons)
qed

lemma updateSize_again:
  assumes "updateSize ol mc = Inr mc1"
  shows "\<exists>mc2. updateSize ol mc1 = Inr mc2 \<and>
           length (canvases mc2) = length (canvases mc1) \<and>
           map entry_layout (canvases mc2) = map entry_layout (canvases mc1)"
proof -
  from assms obtain m1 m2 es where
    nz: "pixelRatio (params mc) \<noteq> 0" "maxCanvasElementWidth mc + overlap mc \<noteq> 0" and
    a: "add_canvases (requiredCanvases mc) mc = Inr m1" and
    r: "remove_canvases (requiredCanvases m1) m1 = Inr m2" and
    u: "update_entries ol m2 0 (mc_maxCanvasWidth m2 + of_int (overlap m2)) 0 (canvases m2) = Inr es" and
    m: "mc1 = m2\<lparr>canvases := es,
                 progressWave := (if es = [] then progressWave m2
                                  else map_option (\<lambda>pw. pw\<lparr>pw_display := ''block''\<rparr>)
                                         (progressWave m2))\<rparr>"
    by (rule updateSize_Inr)
  from add_canvases_Inr [OF a] obtain es1 where m1: "m1 = mc\<lparr>canvases := es1\<rparr>" by blast
  from remove_canvases_Inr [OF r] obtain es2 where m2: "m2 = m1\<lparr>canvases := es2\<rparr>" by blast
  have rq: "requiredCanvases mc1 = requiredCanvases mc"
    using m m1 m2 by (simp add: requiredCanvases_def)
  have len: "int (length (canvases mc1)) = requiredCanvases mc1"
    using updateSize_count [OF assms] rq by simp
  have a2: "add_canvases (requiredCanvases mc1) mc1 = Inr mc1"
    using len by (simp add: add_canvases.simps [of _ mc1])
  have r2: "remove_canvases (requiredCanvases mc1) mc1 = Inr mc1"
    using len by (simp add: remove_canvases.simps [of _ mc1])
  have l: "length es = length (canvases m2)" using update_entries_length [OF u] .
  have "\<exists>es'. update_entries ol mc1 0 (mc_maxCanvasWidth m2 + of_int (overlap m2)) 0 es = Inr es' \<and>
          map entry_layout es' = map entry_layout es"
  proof (cases "canvases m2")
    case Nil
    with l show ?thesis by simp
  next
    case (Cons e rest)
    with u have "update_entries ol m2 0 (mc_maxCanvasWidth m2 + of_int (overlap m2)) 0 (e # rest) = Inr es"
      by simp
    then obtain e1 where "entry_step ol m2 (width_at m2 0 (mc_maxCanvasWidth m2 + of_int (overlap m2))) 0 e = Inr e1"
      unfolding update_entries_Cons bind_err_Inr by auto
    from entry_step_Inr [OF this] have "progressWave m2 \<noteq> None" by simp
    then have pw: "progressWave mc1 \<noteq> None" using m by auto
    show ?thesis
      by (rule update_entries_again [OF _ _ _ pw _ _ u]) (use m l in simp_all)
  qed
  then obtain es' where
    u2: "update_entries ol mc1 0 (mc_maxCanvasWidth m2 + of_int (overlap m2)) 0 es = Inr es'" and
    lay: "map entry_layout es' = map entry_layout es" by blast
  have eq: "mc_maxCanvasWidth mc1 = mc_maxCanvasWidth m2" "overlap mc1 = overlap m2" "canvases mc1 = es"
    "pixelRatio (params mc1) \<noteq> 0" "maxCanvasElementWidth mc1 + overlap mc1 \<noteq> 0"
    using m m1 m2 nz by simp_all
  have "updateSize ol mc1 = Inr (mc1\<lparr>canvases := es',
                 progressWave := (if es' = [] then progressWave mc1
                                  else map_option (\<lambda>pw. pw\<lparr>pw_display := ''block''\<rparr>)
                                         (progressWave mc1))\<rparr>)"
    using a2 r2 u2 eq by (simp add: updateSize_def)
  moreover have "length es' = length es" using lay by (metis length_map)
  ultimately show ?thesis using lay eq(3) by simp
qed


lemma demo_mc_init:
  "bind_err (MultiCanvas_new demo_params 0 128) createElements = Inr demo_mc"
proof -
  have "js_round (398 / 1) = 398" "\<lceil>(1 :: rat) / 2\<rceil> = 1" by code_simp+
  then show ?thesis
    by (simp add: MultiCanvas_new_def createElements_def addCanvas_def demo_params_def
          demo_mc_def Let_def)
qed

lemma demo_mc_ok: "entries_ok demo_mc" "progressWave demo_mc \<noteq> None"
  "pixelRatio (params demo_mc) = 1" "maxCanvasElementWidth demo_mc + overlap demo_mc = 400"
  by (simp_all add: demo_mc_def demo_params_def entries_ok_def entry_ok_def)

lemma updateSize_fields:
  assumes "updateSize ol mc = Inr mc'"
  shows "mc_width mc' = mc_width mc \<and> mc_height mc' = mc_height mc"
proof -
  from assms obtain m1 m2 es where
    a: "add_canvases (requiredCanvases mc) mc = Inr m1" and
    r: "remove_canvases (requiredCanvases m1) m1 = Inr m2" and
    m: "mc' = m2\<lparr>canvases := es,
                 progressWave := (if es = [] then progressWave m2
                                  else map_option (\<lambda>pw. pw\<lparr>pw_display := ''block''\<rparr>)
                                         (progressWave m2))\<rparr>"
    by (rule updateSize_Inr)
  from add_canvases_Inr [OF a] obtain es1 where m1: "m1 = mc\<lparr>canvases := es1\<rparr>" by blast
  from remove_canvases_Inr [OF r] obtain es2 where m2: "m2 = m1\<lparr>canvases := es2\<rparr>" by blast
  show ?thesis using m m1 m2 by simp
qed

section \<open>Resizing the surface set\<close>

text \<open>
  C1. Whenever \<open>resize\<close> returns, the number of surfaces is the ceiling of the total
  element width, \<open>round(width / pixelRatio)\<close>, over the sum of the maximal element width
  and the overlap, whatever the number of surfaces was before; and \<open>resize\<close> does
  return on a renderer whose entries are in order, for a width that is not negative, a
  positive pixel ratio and a positive sum of maximal element width and overlap.
\<close>

theorem resize_surface_count:
  "(resize offsetLeft w h mc = Inr mc' \<longrightarrow>
      int (length (canvases mc')) =
        \<lceil>of_int (js_round (w / pixelRatio (params mc)))
           / (of_int (maxCanvasElementWidth mc + overlap mc) :: rat)\<rceil>) \<and>
   (entries_ok mc \<and> progressWave mc \<noteq> None \<and> 0 < pixelRatio (params mc) \<and> 0 \<le> w \<and>
      0 < maxCanvasElementWidth mc + overlap mc
      \<longrightarrow> (\<exists>mc''. resize offsetLeft w h mc = Inr mc''))"
proof (intro conjI impI)
  assume "resize offsetLeft w h mc = Inr mc'"
  then have "int (length (canvases mc')) = requiredCanvases (mc\<lparr>mc_width := w, mc_height := h\<rparr>)"
    unfolding resize_def by (rule updateSize_count)
  then show "int (length (canvases mc')) =
        \<lceil>of_int (js_round (w / pixelRatio (params mc)))
           / (of_int (maxCanvasElementWidth mc + overlap mc) :: rat)\<rceil>"
    by (simp add: requiredCanvases_def)
next
  assume "entries_ok mc \<and> progressWave mc \<noteq> None \<and> 0 < pixelRatio (params mc) \<and> 0 \<le> w \<and>
      0 < maxCanvasElementWidth mc + overlap mc"
  then show "\<exists>mc''. resize offsetLeft w h mc = Inr mc''"
    unfolding resize_def by (intro updateSize_total) (simp_all add: entries_ok_def)
qed

theorem resize_surface_count_witness:
  "\<exists>mc'. resize css_left 1000 128 demo_mc = Inr mc' \<and> length (canvases mc') = 3"
proof -
  have "\<exists>mc'. resize css_left 1000 128 demo_mc = Inr mc'"
    using resize_surface_count [of css_left 1000 128 demo_mc] demo_mc_ok by simp
  then obtain mc' where r: "resize css_left 1000 128 demo_mc = Inr mc'" ..
  have "js_round (1000 / 1) = 1000" "\<lceil>(1000 :: rat) / 400\<rceil> = 3" by code_simp+
  with r resize_surface_count [of css_left 1000 128 demo_mc mc'] demo_mc_ok
  have "int (length (canvases mc')) = 3"
    by simp
  then show ?thesis using r by auto
qed

text \<open>
  C6. A second \<open>resize\<close> with the same width and height returns, and leaves the number
  of surfaces and the layout of every surface (left offset, canvas width and height,
  element width, of the wave and of the progress canvas) as the first call left them.
\<close>

theorem resize_idempotent:
  assumes "resize offsetLeft w h mc = Inr mc1"
  shows "\<exists>mc2. resize offsetLeft w h mc1 = Inr mc2 \<and>
           length (canvases mc2) = length (canvases mc1) \<and>
           map entry_layout (canvases mc2) = map entry_layout (canvases mc1)"
proof -
  from assms have u: "updateSize offsetLeft (mc\<lparr>mc_width := w, mc_height := h\<rparr>) = Inr mc1"
    by (simp add: resize_def)
  from updateSize_fields [OF u] have "mc_width mc1 = w" "mc_height mc1 = h" by simp_all
  then have "mc1\<lparr>mc_width := w, mc_height := h\<rparr> = mc1" by (cases mc1) simp
  with updateSize_again [OF u] show ?thesis by (simp add: resize_def)
qed

theorem resize_idempotent_witness:
  "\<exists>mc1 mc2. resize css_left 1000 128 demo_mc = Inr mc1 \<and>
      resize css_left 1000 128 mc1 = Inr mc2 \<and>
      length (canvases mc2) = length (canvases mc1) \<and>
      map entry_layout (canvases mc2) = map entry_layout (canvases mc1)"
proof -
  have "\<exists>mc1. updateSize css_left (demo_mc\<lparr>mc_width := 1000, mc_height := 128\<rparr>) = Inr mc1"
    using demo_mc_ok by (intro updateSize_total) (simp_all add: entries_ok_def)
  then obtain mc1 where r: "resize css_left 1000 128 demo_mc = Inr mc1"
    by (auto simp: resize_def)
  from resize_idempotent [OF r] r show ?thesis by blast
qed

section \<open>Rectangle fills\<close>




section \<open>Facts about draws\<close>























section \<open>Draws without a start\<close>




section \<open>Filtered channels\<close>





section \<open>The bar loop\<close>


lemma demo_bars:
  "drawBars (demo_wide\<lparr>params := demo_params\<lparr>barGap := Some 0\<rparr>\<rparr>)
     (Samples [0, 1 / 2, 1, 1 / 2, 0, - (1 / 2), - 1, - (1 / 2)]) 0 (Some 0) (Some 8)
   = Some (Inr [CallFillRect (1 / 2) 64 (5 / 2) 0 0 0,
        CallFillRect (7 / 2) 0 (5 / 2) 128 0 0,
        CallFillRect (13 / 2) 0 (5 / 2) 128 0 0])"
  by code_simp



section \<open>Exporting images\<close>

lemma images_of_dataURL:
  "map wave es = map Some ws \<Longrightarrow>
   images_of (entry_getImage D B format quality ''dataURL'') es
     = Inr (map (\<lambda>c. EntryDataURL (D c format quality)) ws)"
proof (induction es arbitrary: ws)
  case Nil then show ?case by simp
next
  case (Cons e es)
  then obtain c cs where ws: "ws = c # cs" "wave e = Some c" "map wave es = map Some cs"
    by (cases ws) auto
  with Cons.IH [of cs] show ?case by (simp add: entry_getImage_def image_of_def)
qed

lemma images_of_blob:
  "images_of (entry_getImage D B format quality ''blob'') es
     = Inr (map (\<lambda>e. EntryBlob (case wave e of None \<Rightarrow> Rejects TypeError
                                  | Some c \<Rightarrow> Resolves (B c format quality))) es)"
  by (induction es) (simp_all add: entry_getImage_def image_of_def)

lemma promise_all_resolves:
  "promise_all (map (\<lambda>c. Resolves (f c)) cs) = Resolves (map f cs)"
  by (induction cs) simp_all

text \<open>
  C8 (as amended). With a type that is neither \<open>'blob'\<close> nor \<open>'dataURL'\<close>, \<open>getImage\<close>
  returns \<open>undefined\<close> and raises nothing. For \<open>'dataURL'\<close>, on a set whose entries have
  their wave canvases \<open>ws\<close>, it returns the one data URL when there is exactly one
  surface and the list of data URLs, one per surface in order, when there are more
  than one. For \<open>'blob'\<close> it returns a promise of all blobs, which resolves with one
  blob per surface, in order.
\<close>

theorem getImage_results:
  "(type \<noteq> ''blob'' \<and> type \<noteq> ''dataURL'' \<longrightarrow>
      mc_getImage D B format quality type mc = Inr NoImage) \<and>
   (map wave (canvases mc) = map Some ws \<longrightarrow>
      (length ws = 1 \<longrightarrow>
         mc_getImage D B format quality ''dataURL'' mc = Inr (SingleImage (D (hd ws) format quality))) \<and>
      (length ws > 1 \<longrightarrow>
         mc_getImage D B format quality ''dataURL'' mc
           = Inr (ImageList (map (\<lambda>c. D c format quality) ws))) \<and>
      mc_getImage D B format quality ''blob'' mc
        = Inr (Blobs (Resolves (map (\<lambda>c. B c format quality) ws)))) \<and>
   (\<exists>p. mc_getImage D B format quality ''blob'' mc = Inr (Blobs p))"
proof (intro conjI impI)
  assume "type \<noteq> ''blob'' \<and> type \<noteq> ''dataURL''"
  then show "mc_getImage D B format quality type mc = Inr NoImage"
    by (simp add: mc_getImage_def)
next
  assume w: "map wave (canvases mc) = map Some ws" and l: "length ws = 1"
  then obtain c where "ws = [c]" by (cases ws) auto
  with images_of_dataURL [OF w, of D B format quality]
  show "mc_getImage D B format quality ''dataURL'' mc = Inr (SingleImage (D (hd ws) format quality))"
    by (simp add: mc_getImage_def)
next
  assume w: "map wave (canvases mc) = map Some ws" and l: "length ws > 1"
  with images_of_dataURL [OF w, of D B format quality]
  show "mc_getImage D B format quality ''dataURL'' mc
           = Inr (ImageList (map (\<lambda>c. D c format quality) ws))"
    by (simp add: mc_getImage_def comp_def)
next
  assume w: "map wave (canvases mc) = map Some ws"
  have "map (\<lambda>e. case wave e of None \<Rightarrow> Rejects TypeError | Some c \<Rightarrow> Resolves (B c format quality))
          (canvases mc) = map (\<lambda>c. Resolves (B c format quality)) ws"
  proof -
    have "map (\<lambda>e. case wave e of None \<Rightarrow> Rejects TypeError | Some c \<Rightarrow> Resolves (B c format quality))
          (canvases mc)
          = map (\<lambda>ow. case ow of None \<Rightarrow> Rejects TypeError | Some c \<Rightarrow> Resolves (B c format quality))
              (map wave (canvases mc))" by (simp add: comp_def)
    also have "\<dots> = map (\<lambda>c. Resolves (B c format quality)) ws" by (simp add: w comp_def)
    finally show ?thesis .
  qed
  then show "mc_getImage D B format quality ''blob'' mc
        = Inr (Blobs (Resolves (map (\<lambda>c. B c format quality) ws)))"
    by (simp add: mc_getImage_def images_of_blob comp_def promise_all_resolves)
next
  show "\<exists>p. mc_getImage D B format quality ''blob'' mc = Inr (Blobs p)"
    by (simp add: mc_getImage_def images_of_blob)
qed

theorem getImage_results_witness:
  "mc_getImage demo_encode demo_encode ''image/png'' 1 ''dataURL'' demo_mc
     = Inr (SingleImage ''data:image/png'') \<and>
   mc_getImage demo_encode demo_encode ''image/png'' 1 ''svg'' demo_mc = Inr NoImage"
  using getImage_results [of "''svg''" demo_encode demo_encode "''image/png''" 1 demo_mc "[new_canvas 0]"]
  by (simp add: demo_mc_def demo_encode_def)

lemma resize_to_zero:
  "\<exists>mc. resize css_left 0 128 demo_mc = Inr mc \<and> canvases mc = []"
proof -
  have "\<exists>mc. updateSize css_left (demo_mc\<lparr>mc_width := 0, mc_height := 128\<rparr>) = Inr mc"
    using demo_mc_ok by (intro updateSize_total) (simp_all add: entries_ok_def)
  then obtain mc where r: "updateSize css_left (demo_mc\<lparr>mc_width := 0, mc_height := 128\<rparr>) = Inr mc" ..
  have "js_round (0 / 1) = 0" by code_simp
  with updateSize_count [OF r] demo_mc_ok have "canvases mc = []"
    by (simp add: requiredCanvases_def)
  with r show ?thesis by (auto simp: resize_def)
qed

text \<open>
  C8 as stated fails when the set has no surface, as after a resize to width 0: for
  \<open>'dataURL'\<close> the result is \<open>undefined\<close>, not a list.
\<close>

theorem getImage_no_surface_counterexample:
  "\<exists>mc. resize css_left 0 128 demo_mc = Inr mc \<and> length (canvases mc) \<noteq> 1 \<and>
      mc_getImage demo_encode demo_encode ''image/png'' 1 ''dataURL'' mc = Inr NoImage"
proof -
  from resize_to_zero obtain mc where "resize css_left 0 128 demo_mc = Inr mc" "canvases mc = []"
    by blast
  then show ?thesis by (auto simp: mc_getImage_def)
qed

section \<open>The polyline of a surface\<close>

lemma terminal_slice_past_end:
  assumes "entry_end e = 1"
  shows "int (length peaks) \<le> 2 * (line_last e peaks - 1) \<and>
         peak_or0 peaks (2 * (line_last e peaks - 1)) = 0"
proof -
  have "of_nat (length peaks) / 2 - 1 / 2 < (of_int \<lfloor>of_nat (length peaks) / 2 + 1 / 2 :: rat\<rfloor> :: rat)"
    by linarith
  then have "(of_int (int (length peaks)) :: rat) < of_int (2 * \<lfloor>of_nat (length peaks) / 2 + 1 / 2 :: rat\<rfloor> + 1)"
    by simp
  then have "int (length peaks) < 2 * \<lfloor>of_nat (length peaks) / 2 + 1 / 2 :: rat\<rfloor> + 1"
    by (simp only: of_int_less_iff)
  then have "int (length peaks) \<le> 2 * (line_last e peaks - 1)"
    using assms by (simp add: line_last_def js_round_def)
  then show ?thesis by (simp add: peak_or0_def)
qed

text \<open>
  C2. The path of \<open>drawLineToContext\<close> runs over the indices from
  \<open>round(length / 2 * start)\<close> to \<open>round(length / 2 * end) + 1\<close>, and the \<open>+ 1\<close> is applied
  on every surface. On the one surface of a waveform of two pairs of peaks (start 0,
  end 1) the slice is 0 to 3: the index 2 lies past the end of the peaks, its sample is
  read as 0, and the path gets the vertices \<open>(9/2, 10)\<close> on the midline, beyond the
  canvas of width 4.
\<close>

theorem drawLine_terminal_reads_past_end:
  "line_first demo_entry [1 / 2, - (1 / 2), 1, - 1] = 0 \<and>
   line_last demo_entry [1 / 2, - (1 / 2), 1, - 1] = 3 \<and>
   drawLineToContext demo_entry (wave demo_entry) [1 / 2, - (1 / 2), 1, - 1] (Some 1) 10 0
       (Some 0) (Some 2)
     = Inr (Some (emit [BeginPath, MoveTo 0 10, LineTo 0 5,
                        LineTo (1 / 2) 5, LineTo (5 / 2) 0, LineTo (9 / 2) 10,
                        LineTo (9 / 2) 10, LineTo (5 / 2) 20, LineTo (1 / 2) 15,
                        LineTo 0 15, ClosePath, Fill] demo_canvas))"
  by code_simp

section \<open>Entries without a progress canvas\<close>

lemma on_wave_progress: "on_wave f e = Inr e' \<Longrightarrow> progress e' = progress e \<and> e_hasProgressCanvas e' = e_hasProgressCanvas e"
  by (auto simp: on_wave_Inr)

lemma setBackimage_None_progress:
  "setBackimage b None e = Inr e' \<Longrightarrow> progress e' = progress e"
  by (auto simp: setBackimage_def bind_err_Inr on_wave_Inr)

lemma clearWave_no_progress:
  assumes "\<not> e_hasProgressCanvas e" "clearWave e = Inr e'"
  shows "progress e' = progress e"
proof -
  from assms obtain e1 e2 where "on_wave clear_ops e = Inr e1" "setBackimage [] None e1 = Inr e2"
    "e' = e2\<lparr>drawn := False\<rparr>"
    by (auto simp: clearWave_def bind_err_Inr on_wave_Inr)
  then show ?thesis using on_wave_progress setBackimage_None_progress by fastforce
qed

lemma setFillStyles_no_progress:
  assumes "\<not> e_hasProgressCanvas e" "setFillStyles wc pc e = Inr e'"
  shows "progress e' = progress e"
  using assms by (cases "wave e") (auto simp: setFillStyles_def on_wave_def split: if_splits)

lemma applyCanvasTransforms_no_progress:
  assumes "\<not> e_hasProgressCanvas e" "applyCanvasTransforms v e = Inr e'"
  shows "progress e' = progress e"
  using assms by (cases "wave e") (auto simp: applyCanvasTransforms_def on_wave_def split: if_splits)

lemma setLeft_no_progress:
  assumes "\<not> e_hasProgressCanvas e" "setLeft l e = Inr e'"
  shows "progress e' = progress e"
  using assms by (cases "wave e") (auto simp: setLeft_def on_wave_def split: if_splits)

lemma fillRects_no_progress:
  assumes "\<not> e_hasProgressCanvas e"
  shows "progress (fillRects x y w h r e) = progress e"
  using assms by (simp add: fillRects_def Let_def)

lemma updateDimensions_no_progress:
  assumes "\<not> e_hasProgressCanvas e" "updateDimensions ol ew tw w h e = Inr e'"
  shows "progress e' = progress e"
  using assms
  by (auto simp: updateDimensions_def Let_def bind_err_Inr on_wave_Inr split: if_splits option.splits)

lemma drawLines_no_progress:
  assumes "\<not> e_hasProgressCanvas e" "drawLines ps a hh oy s en e = Inr e'"
  shows "progress e' = progress e"
  using assms
  by (auto simp: drawLines_def Let_def bind_err_Inr split: if_splits)


lemma stretchBackimage_needs_progress:
  assumes "progress e = None"
  shows "\<exists>err. stretchBackimage ol dims start totalWidth ratio view backupImg e = Inl err"
proof (cases "stretchBackimage ol dims start totalWidth ratio view backupImg e")
  case (Inl err) then show ?thesis by blast
next
  case (Inr r)
  with assms have False
    by (auto simp: stretchBackimage_def Let_def bind_err_Inr on_wave_Inr on_progress_Inr
        split: if_splits option.splits)
  then show ?thesis ..
qed

text \<open>
  C4. Clearing, filling, setting the fill styles, the transform, the left offset and the
  dimensions leave a missing progress canvas alone (the lemmas above). Stretching and
  the snapshot after a draw do not: on an entry without a progress canvas
  \<open>stretchBackimage\<close> raises a TypeError, in the frame and out of it, and so does the
  callback of the draw timer, which calls \<open>getProgressImage\<close>.
\<close>

theorem stretchBackimage_without_progress:
  "stretchBackimage css_left (\<lambda>src. (4, 20)) 0 100 1 (0, 50) (BackupArray [''a'']) demo_entry
     = Inl TypeError \<and>
   stretchBackimage css_left (\<lambda>src. (4, 20)) 200 100 1 (0, 50) (BackupArray [''a'']) demo_entry
     = Inl TypeError \<and>
   run_pending demo_encode demo_encode demo_entry = Inl TypeError"
  by code_simp


end
